theory Spec2Isabelle
  imports Complex_Main "HOL-Library.Sublist"
begin

section \<open>The harvester \<^verbatim>\<open>harvest_toolgap.py\<close>: data\<close>

text \<open>
  A job is a Python dict read from YAML (\<^verbatim>\<open>Dict[str, Any]\<close>). The values the
  program looks at are told apart as far as the program tells them apart: a string has
  \<^verbatim>\<open>.lower()\<close> and \<^verbatim>\<open>.upper()\<close> and makes a path, any other value does not; every
  value has a truth value. YAML floats and mappings behave like \<open>YInt\<close> and
  \<open>YSeq\<close> in every place the program uses a job's value and are not listed apart.
\<close>

datatype yval = YStr string | YInt int | YBool bool | YNull | YSeq "yval list"

type_synonym job = "string \<rightharpoonup> yval"

fun truthy :: "yval \<Rightarrow> bool" where
  "truthy (YStr s) = (s \<noteq> [])"
| "truthy (YInt i) = (i \<noteq> 0)"
| "truthy (YBool b) = b"
| "truthy YNull = False"
| "truthy (YSeq xs) = (xs \<noteq> [])"

text \<open>
  The exceptions, by the classes the handlers of the program tell apart. \<open>APIError\<close>
  stands for the subclasses of \<^verbatim>\<open>openai.APIError\<close> that carry a
  \<^verbatim>\<open>status_code\<close> (\<^verbatim>\<open>APIStatusError\<close> and below it the rate limit and the other
  status errors); \<open>APIConnectionError\<close> for the \<^verbatim>\<open>openai.APIError\<close>s that carry
  none (\<^verbatim>\<open>APIConnectionError\<close>, \<^verbatim>\<open>APITimeoutError\<close>, a bare
  \<^verbatim>\<open>APIError\<close>); \<open>OtherException\<close> for any other subclass of
  \<^verbatim>\<open>Exception\<close>. Asynchronous \<^verbatim>\<open>BaseException\<close>s (a keyboard interrupt) are
  not values of this type.
\<close>

datatype exn =
    APIError string
  | APIConnectionError string
  | FileNotFoundError string
  | ValueError string
  | RuntimeError string
  | KeyError string
  | AttributeError string
  | TypeError string
  | OtherException string

fun is_APIError :: "exn \<Rightarrow> bool" where
  "is_APIError (APIError m) = True"
| "is_APIError (APIConnectionError m) = True"
| "is_APIError e = False"

text \<open>What a call does: it returns a value, raises, or never comes back.\<close>

datatype 'a res = Returns 'a | Raises exn | Hangs

text \<open>The file-membership record that \<^verbatim>\<open>vector_stores.files.retrieve\<close> returns.\<close>

record vs_file =
  status :: string
  last_error :: "string option"

text \<open>The remote response, and the record \<^verbatim>\<open>run_web_search\<close> and \<^verbatim>\<open>run_file_search\<close> build.\<close>

record response =
  output_text :: string
  output_items :: "string list"

record result =
  r_query :: yval
  r_created :: string
  r_model :: yval
  r_vector_store_id :: "string option"
  r_output_text :: string
  r_output_structured :: "string list"

text \<open>
  A \<^verbatim>\<open>pathlib\<close> path on POSIX: the anchor (\<open>''''\<close>, \<open>''/''\<close> or \<open>''//''\<close>) and the parts
  after it, as \<^verbatim>\<open>PurePosixPath\<close> parses a string: split at \<open>/\<close>, empty parts and
  \<open>.\<close> dropped.
\<close>

record ppath =
  anchor :: string
  parts :: "string list"

fun split_on :: "char \<Rightarrow> string \<Rightarrow> string list" where
  "split_on c [] = [[]]"
| "split_on c (x # xs) =
     (if x = c then [] # split_on c xs
      else (case split_on c xs of
              [] \<Rightarrow> [[x]]
            | y # ys \<Rightarrow> (x # y) # ys))"

definition splitroot :: "string \<Rightarrow> string \<times> string" where
  "splitroot p =
     (if take 1 p \<noteq> ''/'' then ('''', p)
      else if take 1 (drop 1 p) \<noteq> ''/'' \<or> take 1 (drop 2 p) = ''/'' then (''/'', drop 1 p)
      else (take 2 p, drop 2 p))"

definition parse_path :: "string \<Rightarrow> ppath" where
  "parse_path p =
     (if p = [] then \<lparr>anchor = '''', parts = []\<rparr>
      else (case splitroot p of
              (rt, rel) \<Rightarrow>
                \<lparr>anchor = rt, parts = filter (\<lambda>x. x \<noteq> [] \<and> x \<noteq> ''.'') (split_on (CHR ''/'') rel)\<rparr>))"

text \<open>\<^verbatim>\<open>a / s\<close>: a segment that starts with \<open>/\<close> replaces what came before it.\<close>

definition path_join :: "ppath \<Rightarrow> string \<Rightarrow> ppath" where
  "path_join a s =
     (let q = parse_path s
      in if anchor q \<noteq> [] then q
         else \<lparr>anchor = anchor a, parts = parts a @ parts q\<rparr>)"

section \<open>The world of one job\<close>

text \<open>
  What the local file system and the remote API answer while one job runs. Each remote
  operation that a job calls at most once has one scripted outcome; the status check is
  called in a loop and has a script, one outcome per call, in order. A script that runs
  out while the loop is still polling is a remote side that has not reached a terminal
  status: the job \<open>Hangs\<close>.
\<close>

record world =
  now :: string
  expanduser :: "string \<Rightarrow> exn + string"
  path_exists :: "string \<Rightarrow> bool"
  files_create :: "exn + string"
  vector_stores_create :: "exn + string"
  vector_stores_files_create :: "exn option"
  vector_stores_files_retrieve :: "(exn + vs_file) list"
  vector_stores_delete :: "exn option"
  files_delete :: "exn option"
  responses_create :: "exn + response"
  write_text :: "exn option"

text \<open>
  The calls a job makes, in order. A delete carries the outcome the remote side gave
  (\<open>None\<close>: deleted; \<open>Some e\<close>: the delete raised \<open>e\<close>). \<open>ResponsesCreate q m v\<close> is the
  query \<open>q\<close> to model \<open>m\<close>, with the web tool when \<open>v = None\<close> and the file-search tool
  on vector store \<open>i\<close> when \<open>v = Some i\<close>. The generated name of a vector store is not
  recorded.
\<close>

datatype event =
    FilesCreate string
  | VectorStoresCreate
  | VectorStoresFilesCreate string string
  | VectorStoresFilesRetrieve string string
  | VectorStoresDelete string "exn option"
  | FilesDelete string "exn option"
  | ResponsesCreate yval yval "string option"
  | WriteText ppath result
  | Sleep real

section \<open>The program\<close>

definition DEFAULT_WEB_MODEL :: string where
  "DEFAULT_WEB_MODEL = ''gpt-4.1''"

definition DEFAULT_FILE_MODEL :: string where
  "DEFAULT_FILE_MODEL = ''gpt-4o-mini''"

text \<open>
  \<^verbatim>\<open>smart_sleep\<close>: nothing for a non-positive time, else one \<^verbatim>\<open>time.sleep\<close>.
  Times are real numbers: the not-a-number and the infinities of a Python float are not
  among them.
\<close>

definition smart_sleep :: "real \<Rightarrow> event list" where
  "smart_sleep seconds = (if seconds \<le> 0 then [] else [Sleep seconds])"

definition run_web_search :: "world \<Rightarrow> yval \<Rightarrow> yval \<Rightarrow> result res \<times> event list" where
  "run_web_search w q m =
     (case responses_create w of
        Inl e \<Rightarrow> (Raises e, [ResponsesCreate q m None])
      | Inr rsp \<Rightarrow>
          (Returns \<lparr>r_query = q, r_created = now w, r_model = m, r_vector_store_id = None,
                    r_output_text = output_text rsp, r_output_structured = output_items rsp\<rparr>,
           [ResponsesCreate q m None]))"

definition run_file_search :: "world \<Rightarrow> yval \<Rightarrow> string \<Rightarrow> yval \<Rightarrow> result res \<times> event list" where
  "run_file_search w q v m =
     (case responses_create w of
        Inl e \<Rightarrow> (Raises e, [ResponsesCreate q m (Some v)])
      | Inr rsp \<Rightarrow>
          (Returns \<lparr>r_query = q, r_created = now w, r_model = m, r_vector_store_id = Some v,
                    r_output_text = output_text rsp, r_output_structured = output_items rsp\<rparr>,
           [ResponsesCreate q m (Some v)]))"

text \<open>
  The two deletes of the error paths of \<^verbatim>\<open>setup_file_search_vector_store\<close>:
  \<^verbatim>\<open>try: client.vector_stores.delete(...)  except: pass\<close> and the same for the file.
  Whatever the deletes raise is dropped.
\<close>

definition delete_both :: "world \<Rightarrow> string \<Rightarrow> string \<Rightarrow> event list" where
  "delete_both w v f = [VectorStoresDelete v (vector_stores_delete w), FilesDelete f (files_delete w)]"

text \<open>
  The body of the \<^verbatim>\<open>try\<close> inside \<^verbatim>\<open>while True\<close>, after the status check gave \<open>r\<close>:
  it breaks, goes round again after a sleep, or raises.
\<close>

datatype iteration = Break | Continue | Throw exn

definition poll_body :: "real \<Rightarrow> exn + vs_file \<Rightarrow> iteration \<times> event list" where
  "poll_body p r =
     (case r of
        Inl e \<Rightarrow> (Throw e, [])
      | Inr s \<Rightarrow>
          if status s = ''completed'' then (Break, [])
          else if status s = ''failed'' then
            (Throw (RuntimeError (''File processing failed: '' @
               (case last_error s of Some m \<Rightarrow> m | None \<Rightarrow> ''Unknown error''))), [])
          else (Continue, smart_sleep p))"

text \<open>
  The loop with its two handlers: \<^verbatim>\<open>except APIError\<close> sleeps twice the interval and
  goes round again; \<^verbatim>\<open>except Exception\<close> deletes both resources and re-raises.
\<close>

fun poll_status ::
  "real \<Rightarrow> world \<Rightarrow> string \<Rightarrow> string \<Rightarrow> (exn + vs_file) list \<Rightarrow> unit res \<times> event list" where
  "poll_status p w v f [] = (Hangs, [])"
| "poll_status p w v f (r # rs) =
     (case poll_body p r of
        (Break, ev) \<Rightarrow> (Returns (), VectorStoresFilesRetrieve v f # ev)
      | (Continue, ev) \<Rightarrow>
          (case poll_status p w v f rs of
             (res, ev') \<Rightarrow> (res, VectorStoresFilesRetrieve v f # ev @ ev'))
      | (Throw e, ev) \<Rightarrow>
          if is_APIError e then
            (case poll_status p w v f rs of
               (res, ev') \<Rightarrow> (res, VectorStoresFilesRetrieve v f # ev @ smart_sleep (p * 2) @ ev'))
          else (Raises e, VectorStoresFilesRetrieve v f # ev @ delete_both w v f))"

definition setup_file_search_vector_store ::
  "real \<Rightarrow> world \<Rightarrow> string \<Rightarrow> string res \<times> event list" where
  "setup_file_search_vector_store p w path =
     (case files_create w of
        Inl e \<Rightarrow> (Raises e, [FilesCreate path])
      | Inr f \<Rightarrow>
          (case vector_stores_create w of
             Inl e \<Rightarrow>
               (Raises e, [FilesCreate path, VectorStoresCreate, FilesDelete f (files_delete w)])
           | Inr v \<Rightarrow>
               (case vector_stores_files_create w of
                  Some e \<Rightarrow>
                    (Raises e,
                     [FilesCreate path, VectorStoresCreate, VectorStoresFilesCreate v f]
                       @ delete_both w v f)
                | None \<Rightarrow>
                    (case poll_status p w v f (vector_stores_files_retrieve w) of
                       (Returns u, ev) \<Rightarrow>
                         (Returns v,
                          [FilesCreate path, VectorStoresCreate, VectorStoresFilesCreate v f] @ ev)
                     | (Raises e, ev) \<Rightarrow>
                         (Raises e,
                          [FilesCreate path, VectorStoresCreate, VectorStoresFilesCreate v f] @ ev)
                     | (Hangs, ev) \<Rightarrow>
                         (Hangs,
                          [FilesCreate path, VectorStoresCreate, VectorStoresFilesCreate v f] @ ev)))))"

text \<open>\<^verbatim>\<open>cleanup_vector_store\<close>: one delete, its error caught and printed.\<close>

definition cleanup_vector_store :: "world \<Rightarrow> string \<Rightarrow> event list" where
  "cleanup_vector_store w v = [VectorStoresDelete v (vector_stores_delete w)]"

text \<open>\<^verbatim>\<open>str.lower\<close> on ASCII.\<close>

definition lower_char :: "char \<Rightarrow> char" where
  "lower_char c =
     (case map_of (zip ''ABCDEFGHIJKLMNOPQRSTUVWXYZ'' ''abcdefghijklmnopqrstuvwxyz'') c of
        Some d \<Rightarrow> d
      | None \<Rightarrow> c)"

definition lower :: "string \<Rightarrow> string" where
  "lower s = map lower_char s"

definition quote :: string where
  "quote = [CHR 0x27]"

text \<open>
  The body of the \<^verbatim>\<open>try\<close> of a \<^verbatim>\<open>file\<close> job: what it does, the calls it made, and
  the value of \<^verbatim>\<open>vector_store_id\<close> when the \<^verbatim>\<open>finally\<close> block is reached.
\<close>

definition file_job_body ::
  "real \<Rightarrow> world \<Rightarrow> job \<Rightarrow> yval \<Rightarrow> result res \<times> event list \<times> string option" where
  "file_job_body p w jb m =
     (case jb ''file_path'' of
        None \<Rightarrow>
          (Raises (ValueError (''Job type '' @ quote @ ''file'' @ quote @ '' requires '' @ quote
                     @ ''file_path'' @ quote @ '' for this script.'')), [], None)
      | Some (YStr fp) \<Rightarrow>
          (case expanduser w fp of
             Inl e \<Rightarrow> (Raises e, [], None)
           | Inr path \<Rightarrow>
               if \<not> path_exists w path then
                 (Raises (FileNotFoundError (''File not found at path: '' @ path)), [], None)
               else
                 (case setup_file_search_vector_store p w path of
                    (Raises e, ev) \<Rightarrow> (Raises e, ev, None)
                  | (Hangs, ev) \<Rightarrow> (Hangs, ev, None)
                  | (Returns v, ev) \<Rightarrow>
                      (case jb ''query'' of
                         None \<Rightarrow> (Raises (KeyError ''query''), ev, Some v)
                       | Some q \<Rightarrow>
                           (case run_file_search w q v m of
                              (r, ev') \<Rightarrow> (r, ev @ ev', Some v)))))
      | Some other \<Rightarrow> (Raises (TypeError ''expected str, bytes or os.PathLike object''), [], None))"

text \<open>
  The first half of \<^verbatim>\<open>process_job\<close>: the result record of the job. The \<^verbatim>\<open>finally\<close>
  block of a \<^verbatim>\<open>file\<close> job runs \<^verbatim>\<open>if vector_store_id: cleanup_vector_store(...)\<close>:
  the empty string is false there, as \<^verbatim>\<open>None\<close> is.
\<close>

definition dispatch :: "real \<Rightarrow> world \<Rightarrow> job \<Rightarrow> result res \<times> event list" where
  "dispatch p w jb =
     (case jb ''type'' of
        None \<Rightarrow> (Raises (KeyError ''type''), [])
      | Some (YStr t) \<Rightarrow>
          (let job_type = lower t;
               model = (case jb ''model'' of None \<Rightarrow> YNull | Some m \<Rightarrow> m)
           in if job_type = ''web'' then
                (case jb ''query'' of
                   None \<Rightarrow> (Raises (KeyError ''query''), [])
                 | Some q \<Rightarrow>
                     run_web_search w q (if \<not> truthy model then YStr DEFAULT_WEB_MODEL else model))
              else if job_type = ''file'' then
                (case file_job_body p w jb
                        (if \<not> truthy model then YStr DEFAULT_FILE_MODEL else model) of
                   (r, ev, vector_store_id) \<Rightarrow>
                     (case r of
                        Hangs \<Rightarrow> (Hangs, ev)
                      | _ \<Rightarrow>
                          (r, ev @ (case vector_store_id of
                                      None \<Rightarrow> []
                                    | Some v \<Rightarrow> if v \<noteq> [] then cleanup_vector_store w v else []))))
              else (Raises (ValueError (''Unknown job type: '' @ job_type)), []))
      | Some other \<Rightarrow> (Raises (AttributeError ''lower''), []))"

text \<open>
  \<^verbatim>\<open>process_job\<close>: the result is written to \<^verbatim>\<open>outdir / job["out"]\<close>
  (\<^verbatim>\<open>mkdir\<close> of the parent and \<^verbatim>\<open>write_text\<close>, which replaces a file that is there),
  then the pause.
\<close>

definition process_job ::
  "real \<Rightarrow> real \<Rightarrow> world \<Rightarrow> ppath \<Rightarrow> job \<Rightarrow> unit res \<times> event list" where
  "process_job p sleep_s w outdir jb =
     (case dispatch p w jb of
        (Raises e, ev) \<Rightarrow> (Raises e, ev)
      | (Hangs, ev) \<Rightarrow> (Hangs, ev)
      | (Returns rslt, ev) \<Rightarrow>
          (case jb ''out'' of
             None \<Rightarrow> (Raises (KeyError ''out''), ev)
           | Some (YStr out) \<Rightarrow>
               (case write_text w of
                  Some e \<Rightarrow> (Raises e, ev)
                | None \<Rightarrow>
                    (Returns (), ev @ [WriteText (path_join outdir out) rslt] @ smart_sleep sleep_s))
           | Some other \<Rightarrow> (Raises (TypeError ''unsupported operand type(s) for /''), ev)))"

text \<open>The four handlers of the job loop of \<^verbatim>\<open>cli\<close>, in their order.\<close>

datatype failure_class = InputFileNotFound | ConfigurationError | OpenAIAPIError | UnexpectedError

fun classify :: "exn \<Rightarrow> failure_class" where
  "classify (FileNotFoundError m) = InputFileNotFound"
| "classify (ValueError m) = ConfigurationError"
| "classify (APIError m) = OpenAIAPIError"
| "classify (APIConnectionError m) = OpenAIAPIError"
| "classify e = UnexpectedError"

text \<open>
  What a handler itself raises. The handler of \<^verbatim>\<open>APIError\<close> prints
  \<^verbatim>\<open>e.status_code\<close> before it counts the failure, and an
  \<^verbatim>\<open>openai.APIError\<close> that is not a status error has no such attribute. The other
  handlers print the exception and its class name only.
\<close>

fun handler_raises :: "exn \<Rightarrow> exn option" where
  "handler_raises (APIConnectionError m) = Some (AttributeError ''status_code'')"
| "handler_raises e = None"

text \<open>
  The line printed before the \<^verbatim>\<open>try\<close> of each job:
  \<^verbatim>\<open>job.get('type', 'UNKNOWN').upper()\<close>. It is outside the \<^verbatim>\<open>try\<close>, and a value
  that is not a string has no \<^verbatim>\<open>upper\<close>.
\<close>

definition print_header :: "job \<Rightarrow> exn option" where
  "print_header jb =
     (case jb ''type'' of
        None \<Rightarrow> None
      | Some (YStr t) \<Rightarrow> None
      | Some other \<Rightarrow> Some (AttributeError ''upper''))"

datatype job_log = Succeeded | Failed failure_class exn

datatype loop_end = Completed | Crashed exn | Stuck

record run =
  attempts :: "job_log list"
  job_failures :: nat
  calls :: "event list"
  ending :: loop_end

text \<open>
  The \<^verbatim>\<open>for\<close> loop of \<^verbatim>\<open>cli\<close>, each job with the world it runs in; \<open>n\<close> is
  \<^verbatim>\<open>job_failures\<close> so far. \<open>attempts\<close> has one entry for each job the loop
  has dealt with: it succeeded, or its failure was printed and counted. An exception
  raised by the header line or inside a handler leaves the loop and \<^verbatim>\<open>cli\<close>.
\<close>

fun run_jobs :: "real \<Rightarrow> real \<Rightarrow> ppath \<Rightarrow> nat \<Rightarrow> (job \<times> world) list \<Rightarrow> run" where
  "run_jobs p sleep_s outdir n [] =
     \<lparr>attempts = [], job_failures = n, calls = [], ending = Completed\<rparr>"
| "run_jobs p sleep_s outdir n ((jb, w) # rest) =
     (case print_header jb of
        Some e \<Rightarrow> \<lparr>attempts = [], job_failures = n, calls = [], ending = Crashed e\<rparr>
      | None \<Rightarrow>
          (case process_job p sleep_s w outdir jb of
             (Hangs, ev) \<Rightarrow> \<lparr>attempts = [], job_failures = n, calls = ev, ending = Stuck\<rparr>
           | (Returns u, ev) \<Rightarrow>
               (let r = run_jobs p sleep_s outdir n rest
                in r\<lparr>attempts := Succeeded # attempts r, calls := ev @ calls r\<rparr>)
           | (Raises e, ev) \<Rightarrow>
               (case handler_raises e of
                  Some e' \<Rightarrow>
                    \<lparr>attempts = [], job_failures = n, calls = ev, ending = Crashed e'\<rparr>
                | None \<Rightarrow>
                    (let r = run_jobs p sleep_s outdir (n + 1) rest
                     in r\<lparr>attempts := Failed (classify e) e # attempts r,
                          calls := ev @ calls r\<rparr>))))"

text \<open>
  \<^verbatim>\<open>cli\<close> from the key check on. \<^verbatim>\<open>sys.exit\<close> with a message and an uncaught
  exception end the process with status 1; a \<^verbatim>\<open>cli\<close> that returns ends it with
  status 0; a run that is stuck in a job does not end.
\<close>

datatype summary = AllCompleted | Encountered nat

datatype process_end = ExitStatus nat | NeverExits

record invocation =
  poll_interval :: real
  sleep_arg :: real
  outdir_arg :: string
  api_key_set :: bool
  run_timestamp :: string
  jobs_file :: "string + (job \<times> world) list"

definition cli :: "invocation \<Rightarrow> run option \<times> summary option \<times> process_end" where
  "cli a =
     (if \<not> api_key_set a then (None, None, ExitStatus 1)
      else (case jobs_file a of
              Inl msg \<Rightarrow> (None, None, ExitStatus 1)
            | Inr jobs \<Rightarrow>
                (let outdir = path_join (parse_path (outdir_arg a)) (run_timestamp a);
                     r = run_jobs (poll_interval a) (sleep_arg a) outdir 0 jobs
                 in case ending r of
                      Crashed e \<Rightarrow> (Some r, None, ExitStatus 1)
                    | Stuck \<Rightarrow> (Some r, None, NeverExits)
                    | Completed \<Rightarrow>
                        (Some r,
                         Some (if job_failures r = 0 then AllCompleted
                               else Encountered (job_failures r)),
                         ExitStatus 0))))"

section \<open>Reading a trace\<close>

text \<open>
  A status that keeps the loop polling (anything but \<open>completed\<close> and \<open>failed\<close>), and
  an outcome of the status check after which the loop goes round again: such a status,
  or an \<open>APIError\<close>.
\<close>

definition pending :: "vs_file \<Rightarrow> bool" where
  "pending s = (status s \<noteq> ''completed'' \<and> status s \<noteq> ''failed'')"

definition in_progress :: "exn + vs_file \<Rightarrow> bool" where
  "in_progress r = (case r of Inl e \<Rightarrow> is_APIError e | Inr s \<Rightarrow> pending s)"

text \<open>The calls of one round that goes round again: the check, then the sleep.\<close>

definition round_calls :: "real \<Rightarrow> string \<Rightarrow> string \<Rightarrow> exn + vs_file \<Rightarrow> event list" where
  "round_calls p v f r =
     VectorStoresFilesRetrieve v f # (case r of Inl e \<Rightarrow> smart_sleep (p * 2) | Inr s \<Rightarrow> smart_sleep p)"

text \<open>The remote error message of a failed status, as the loop reads it.\<close>

definition error_message :: "vs_file \<Rightarrow> string" where
  "error_message s = (case last_error s of Some m \<Rightarrow> m | None \<Rightarrow> ''Unknown error'')"

fun is_retrieve :: "event \<Rightarrow> bool" where
  "is_retrieve (VectorStoresFilesRetrieve v f) = True"
| "is_retrieve e = False"

text \<open>The vector stores and the files whose deletion a trace attempts, in order.\<close>

fun vs_deletes :: "event list \<Rightarrow> string list" where
  "vs_deletes [] = []"
| "vs_deletes (VectorStoresDelete v out # es) = v # vs_deletes es"
| "vs_deletes (e # es) = vs_deletes es"

fun files_deletes :: "event list \<Rightarrow> string list" where
  "files_deletes [] = []"
| "files_deletes (FilesDelete f out # es) = f # files_deletes es"
| "files_deletes (e # es) = files_deletes es"

text \<open>The paths a trace writes, in order.\<close>

fun write_paths :: "event list \<Rightarrow> ppath list" where
  "write_paths [] = []"
| "write_paths (WriteText pth r # es) = pth # write_paths es"
| "write_paths (e # es) = write_paths es"

text \<open>
  Which file a path names is the business of the file system: \<open>..\<close>, symbolic links
  and case folding make different paths name one file. \<open>fs\<close> maps a path to the file it
  names. \<open>written fs pth es\<close> is what is in the file that \<open>pth\<close> names after the trace
  \<open>es\<close>: the record of the last write to a path that names the same file.
\<close>

fun written :: "(ppath \<Rightarrow> 'f) \<Rightarrow> ppath \<Rightarrow> event list \<Rightarrow> result option" where
  "written fs pth [] = None"
| "written fs pth (WriteText q r # es) =
     (case written fs pth es of
        Some r' \<Rightarrow> Some r'
      | None \<Rightarrow> if fs q = fs pth then Some r else None)"
| "written fs pth (e # es) = written fs pth es"

text \<open>
  The files of a POSIX file system with no symbolic links and exact-case names: a part
  \<open>..\<close> undoes the part before it (\<^verbatim>\<open>write_text\<close> comes after the \<^verbatim>\<open>mkdir\<close> of the
  parent, so that part is a directory), and \<open>..\<close> at the root stays at the root.
\<close>

fun collapse :: "string list \<Rightarrow> string list \<Rightarrow> string list" where
  "collapse st [] = rev st"
| "collapse st (x # xs) =
     (if x = ''..'' \<and> st \<noteq> [] \<and> hd st \<noteq> ''..'' then collapse (tl st) xs
      else collapse (x # st) xs)"

definition posix_file :: "ppath \<Rightarrow> ppath" where
  "posix_file pth =
     \<lparr>anchor = anchor pth,
      parts = (if anchor pth = [] then collapse [] (parts pth)
               else dropWhile (\<lambda>x. x = ''..'') (collapse [] (parts pth)))\<rparr>"

text \<open>The path a job writes to, when its \<^verbatim>\<open>out\<close> is a string, and those of a job list.\<close>

definition target :: "ppath \<Rightarrow> job \<Rightarrow> ppath option" where
  "target outdir jb =
     (case jb ''out'' of
        Some (YStr out) \<Rightarrow> Some (path_join outdir out)
      | _ \<Rightarrow> None)"

definition targets :: "ppath \<Rightarrow> (job \<times> world) list \<Rightarrow> ppath list" where
  "targets outdir jobs = List.map_filter (\<lambda>(jb, w). target outdir jb) jobs"

text \<open>
  A job that lacks a required field or names an unknown type: no \<^verbatim>\<open>type\<close>, no
  \<^verbatim>\<open>query\<close>, no \<^verbatim>\<open>out\<close>, a \<^verbatim>\<open>type\<close> that is a string other than \<open>web\<close> and
  \<open>file\<close>, or a \<^verbatim>\<open>file\<close> job with no \<^verbatim>\<open>file_path\<close>.
\<close>

definition malformed :: "job \<Rightarrow> bool" where
  "malformed jb =
     (jb ''type'' = None \<or> jb ''query'' = None \<or> jb ''out'' = None
      \<or> (case jb ''type'' of
            Some (YStr t) \<Rightarrow>
              (lower t \<noteq> ''web'' \<and> lower t \<noteq> ''file'')
              \<or> (lower t = ''file'' \<and> jb ''file_path'' = None)
          | _ \<Rightarrow> False))"

text \<open>
  A \<^verbatim>\<open>process_job\<close> call that the loop deals with: it returned, or it raised an
  exception whose handler prints and counts it.
\<close>

fun settles :: "unit res \<Rightarrow> bool" where
  "settles (Returns u) = True"
| "settles (Raises e) = (handler_raises e = None)"
| "settles Hangs = False"

fun is_failed :: "job_log \<Rightarrow> bool" where
  "is_failed (Failed c e) = True"
| "is_failed Succeeded = False"

text \<open>What the loop records of a job whose \<^verbatim>\<open>process_job\<close> call came back.\<close>

fun log_of :: "unit res \<Rightarrow> job_log" where
  "log_of (Raises e) = Failed (classify e) e"
| "log_of r = Succeeded"

text \<open>
  A run in which the first job failed with \<open>e\<close>, in class \<open>c\<close>, after the calls
  \<open>ev\<close>, and \<open>r\<close> is the run of the jobs after it.
\<close>

definition logged_failure :: "failure_class \<Rightarrow> exn \<Rightarrow> event list \<Rightarrow> run \<Rightarrow> run" where
  "logged_failure c e ev r = r\<lparr>attempts := Failed c e # attempts r, calls := ev @ calls r\<rparr>"

text \<open>The output directory of a run: \<^verbatim>\<open>pathlib.Path(args.outdir) / run_timestamp\<close>.\<close>

definition outdir_of :: "invocation \<Rightarrow> ppath" where
  "outdir_of a = path_join (parse_path (outdir_arg a)) (run_timestamp a)"

text \<open>The number of jobs of a list whose \<^verbatim>\<open>process_job\<close> call raises.\<close>

definition raised_count :: "real \<Rightarrow> real \<Rightarrow> ppath \<Rightarrow> (job \<times> world) list \<Rightarrow> nat" where
  "raised_count p sleep_s outdir jobs =
     length (filter (\<lambda>(jb, w). case fst (process_job p sleep_s w outdir jb) of
                                  Raises e \<Rightarrow> True
                                | Returns u \<Rightarrow> False
                                | Hangs \<Rightarrow> False) jobs)"

text \<open>The model a \<^verbatim>\<open>file\<close> job asks for: the job's own, or the default.\<close>

definition file_model :: "job \<Rightarrow> yval" where
  "file_model jb =
     (if \<not> truthy (case jb ''model'' of None \<Rightarrow> YNull | Some m \<Rightarrow> m)
      then YStr DEFAULT_FILE_MODEL
      else (case jb ''model'' of None \<Rightarrow> YNull | Some m \<Rightarrow> m))"

section \<open>Example inputs\<close>

definition ready_world :: world where
  "ready_world =
     \<lparr>now = ''20250101_120000'',
      expanduser = (\<lambda>s. Inr s),
      path_exists = (\<lambda>s. s = ''docs/my_document.pdf''),
      files_create = Inr ''file-1'',
      vector_stores_create = Inr ''vs_1'',
      vector_stores_files_create = None,
      vector_stores_files_retrieve =
        [Inr \<lparr>status = ''in_progress'', last_error = None\<rparr>,
         Inr \<lparr>status = ''completed'', last_error = None\<rparr>],
      vector_stores_delete = None,
      files_delete = None,
      responses_create = Inr \<lparr>output_text = ''answer'', output_items = []\<rparr>,
      write_text = None\<rparr>"

text \<open>Processing fails with a remote message, and both deletes raise.\<close>

definition bad_format_world :: world where
  "bad_format_world =
     ready_world
       \<lparr>vector_stores_files_retrieve :=
          [Inr \<lparr>status = ''in_progress'', last_error = None\<rparr>,
           Inr \<lparr>status = ''failed'', last_error = Some ''bad format''\<rparr>],
        vector_stores_delete := Some (APIError ''not found''),
        files_delete := Some (OtherException ''connection reset'')\<rparr>"

text \<open>The other ways a \<^verbatim>\<open>file\<close> job can end once the vector store is there.\<close>

definition add_fails_world :: world where
  "add_fails_world = ready_world\<lparr>vector_stores_files_create := Some (APIError ''bad request'')\<rparr>"

definition check_raises_world :: world where
  "check_raises_world =
     ready_world\<lparr>vector_stores_files_retrieve := [Inl (OtherException ''timed out'')]\<rparr>"

definition query_fails_world :: world where
  "query_fails_world = ready_world\<lparr>responses_create := Inl (APIError ''server error'')\<rparr>"

definition connection_fails_world :: world where
  "connection_fails_world =
     ready_world\<lparr>responses_create := Inl (APIConnectionError ''Connection error.'')\<rparr>"

definition file_job :: job where
  "file_job =
     [''type'' \<mapsto> YStr ''file'', ''file_path'' \<mapsto> YStr ''docs/my_document.pdf'',
      ''query'' \<mapsto> YStr ''Summarize the document.'', ''out'' \<mapsto> YStr ''my_document_summary.json'']"

definition missing_file_job :: job where
  "missing_file_job =
     [''type'' \<mapsto> YStr ''file'', ''file_path'' \<mapsto> YStr ''docs/absent.pdf'',
      ''query'' \<mapsto> YStr ''Summarize the document.'', ''out'' \<mapsto> YStr ''absent.json'']"

definition no_path_job :: job where
  "no_path_job =
     [''type'' \<mapsto> YStr ''File'', ''query'' \<mapsto> YStr ''Summarize the document.'',
      ''out'' \<mapsto> YStr ''summary.json'']"

definition web_job :: job where
  "web_job =
     [''type'' \<mapsto> YStr ''web'', ''query'' \<mapsto> YStr ''latest emperor penguin population study'',
      ''out'' \<mapsto> YStr ''penguin_pop.json'']"

definition other_web_job :: job where
  "other_web_job =
     [''type'' \<mapsto> YStr ''web'', ''query'' \<mapsto> YStr ''tardigrade habitats'',
      ''out'' \<mapsto> YStr ''penguin_pop.json'']"

definition no_query_job :: job where
  "no_query_job = [''type'' \<mapsto> YStr ''web'', ''out'' \<mapsto> YStr ''second.json'']"

definition no_type_job :: job where
  "no_type_job = [''query'' \<mapsto> YStr ''a penguin'', ''out'' \<mapsto> YStr ''second.json'']"

definition no_out_job :: job where
  "no_out_job = [''type'' \<mapsto> YStr ''web'', ''query'' \<mapsto> YStr ''a penguin'']"

definition file_no_query_job :: job where
  "file_no_query_job =
     [''type'' \<mapsto> YStr ''file'', ''file_path'' \<mapsto> YStr ''docs/my_document.pdf'',
      ''out'' \<mapsto> YStr ''second.json'']"

definition dotdot_job :: job where
  "dotdot_job =
     [''type'' \<mapsto> YStr ''web'', ''query'' \<mapsto> YStr ''tardigrade habitats'',
      ''out'' \<mapsto> YStr ''sub/../penguin_pop.json'']"

definition third_job :: job where
  "third_job =
     [''type'' \<mapsto> YStr ''web'', ''query'' \<mapsto> YStr ''tardigrade habitats'',
      ''out'' \<mapsto> YStr ''third.json'']"

definition unknown_type_job :: job where
  "unknown_type_job =
     [''type'' \<mapsto> YStr ''image'', ''query'' \<mapsto> YStr ''a penguin'', ''out'' \<mapsto> YStr ''img.json'']"

definition numeric_type_job :: job where
  "numeric_type_job =
     [''type'' \<mapsto> YInt 5, ''query'' \<mapsto> YStr ''a penguin'', ''out'' \<mapsto> YStr ''first.json'']"

definition stash :: ppath where
  "stash = path_join (parse_path ''stash'') ''20250101_120000''"

definition example_invocation :: "(job \<times> world) list \<Rightarrow> invocation" where
  "example_invocation jobs =
     \<lparr>poll_interval = 5, sleep_arg = 1 / 4, outdir_arg = ''stash'', api_key_set = True,
      run_timestamp = ''20250101_120000'', jobs_file = Inr jobs\<rparr>"

section \<open>Facts about the examples and the polling loop\<close>

lemma lower_web: "lower ''web'' = ''web''" by (simp add: lower_def lower_char_def)
lemma lower_file: "lower ''file'' = ''file''" by (simp add: lower_def lower_char_def)
lemma lower_image: "lower ''image'' = ''image''" by (simp add: lower_def lower_char_def)

lemma stash_eq: "stash = \<lparr>anchor = [], parts = [''stash'', ''20250101_120000'']\<rparr>"
  by (simp add: stash_def path_join_def parse_path_def splitroot_def)

lemma poll_status_round:
  "in_progress r \<Longrightarrow>
   poll_status p w v f (r # rs) =
     (fst (poll_status p w v f rs), round_calls p v f r @ snd (poll_status p w v f rs))"
  by (cases r) (auto simp: in_progress_def pending_def poll_body_def round_calls_def split: prod.splits)

lemma poll_status_rounds:
  "list_all in_progress pre \<Longrightarrow>
   poll_status p w v f (pre @ rs) =
     (fst (poll_status p w v f rs),
      concat (map (round_calls p v f) pre) @ snd (poll_status p w v f rs))"
proof (induction pre)
  case Nil
  show ?case by simp
next
  case (Cons r pre)
  then have r: "in_progress r" and pre: "list_all in_progress pre" by simp_all
  show ?case
    using poll_status_round [OF r, of p w v f "pre @ rs"] Cons.IH [OF pre]
    by simp
qed

lemma poll_status_completed:
  "status s = ''completed'' \<Longrightarrow>
   poll_status p w v f (Inr s # rs) = (Returns (), [VectorStoresFilesRetrieve v f])"
  by (simp add: poll_body_def)

lemma poll_status_failed:
  "status s = ''failed'' \<Longrightarrow>
   poll_status p w v f (Inr s # rs) =
     (Raises (RuntimeError (''File processing failed: '' @ error_message s)),
      VectorStoresFilesRetrieve v f # delete_both w v f)"
  by (simp add: poll_body_def error_message_def)

lemma poll_status_raised:
  "\<not> is_APIError e \<Longrightarrow>
   poll_status p w v f (Inl e # rs) = (Raises e, VectorStoresFilesRetrieve v f # delete_both w v f)"
  by (simp add: poll_body_def)

lemma setup_polls:
  assumes "files_create w = Inr f" "vector_stores_create w = Inr v"
    "vector_stores_files_create w = None"
  shows "setup_file_search_vector_store p w path =
     (case fst (poll_status p w v f (vector_stores_files_retrieve w)) of
        Returns u \<Rightarrow> Returns v | Raises e \<Rightarrow> Raises e | Hangs \<Rightarrow> Hangs,
      [FilesCreate path, VectorStoresCreate, VectorStoresFilesCreate v f]
        @ snd (poll_status p w v f (vector_stores_files_retrieve w)))"
  using assms
  by (simp add: setup_file_search_vector_store_def split: prod.splits res.splits)

lemma poll_statuses:
  "poll_status p w v f (map Inr ss) =
     (case dropWhile pending ss of
        [] \<Rightarrow> Hangs
      | s # rest \<Rightarrow>
          if status s = ''completed'' then Returns ()
          else Raises (RuntimeError (''File processing failed: '' @ error_message s)),
      concat (map (round_calls p v f) (map Inr (takeWhile pending ss)))
        @ (case dropWhile pending ss of
             [] \<Rightarrow> []
           | s # rest \<Rightarrow>
               if status s = ''completed'' then [VectorStoresFilesRetrieve v f]
               else VectorStoresFilesRetrieve v f # delete_both w v f))"
proof (induction ss)
  case Nil
  show ?case by simp
next
  case (Cons s ss)
  show ?case
  proof (cases "pending s")
    case True
    then have "in_progress (Inr s)" by (simp add: in_progress_def)
    from poll_status_round [OF this, of p w v f "map Inr ss"] Cons.IH True
    show ?thesis by simp
  next
    case False
    then consider "status s = ''completed''" | "status s = ''failed''"
      by (auto simp: pending_def)
    then show ?thesis
    proof cases
      case 1
      with False poll_status_completed [OF 1, of p w v f "map Inr ss"] show ?thesis by simp
    next
      case 2
      with False poll_status_failed [OF 2, of p w v f "map Inr ss"] show ?thesis by simp
    qed
  qed
qed


lemma retrieves_smart_sleep: "filter is_retrieve (smart_sleep t) = []"
  by (simp add: smart_sleep_def)

lemma retrieves_round_calls: "length (filter is_retrieve (round_calls p v f r)) = 1"
  by (cases r) (simp_all add: round_calls_def retrieves_smart_sleep)

lemma retrieves_rounds:
  "length (filter is_retrieve (concat (map (round_calls p v f) rs))) = length rs"
  by (induction rs) (simp_all add: retrieves_round_calls)

lemma retrieves_delete_both: "filter is_retrieve (delete_both w v f) = []"
  by (simp add: delete_both_def)

lemma res_of_first_terminal:
  "(case (case d of [] \<Rightarrow> Hangs | s # rest \<Rightarrow> if c s then Returns () else Raises (g s)) of
      Returns u \<Rightarrow> Returns v | Raises e \<Rightarrow> Raises e | Hangs \<Rightarrow> Hangs) =
   (case d of [] \<Rightarrow> Hangs | s # rest \<Rightarrow> if c s then Returns v else Raises (g s))"
  by (cases d) simp_all

lemma retrieves_tail:
  "length (filter is_retrieve
     (case d of
        [] \<Rightarrow> []
      | s # rest \<Rightarrow>
          if status s = ''completed'' then [VectorStoresFilesRetrieve v f]
          else VectorStoresFilesRetrieve v f # delete_both w v f)) =
   (if d = [] then 0 else 1)"
  by (cases d) (simp_all add: retrieves_delete_both)

section \<open>Facts about a \<^verbatim>\<open>file\<close> job\<close>

lemma vs_deletes_append: "vs_deletes (xs @ ys) = vs_deletes xs @ vs_deletes ys"
  by (induction xs rule: vs_deletes.induct) simp_all

lemma vs_deletes_smart_sleep: "vs_deletes (smart_sleep t) = []"
  by (simp add: smart_sleep_def)

lemma vs_deletes_round_calls: "vs_deletes (round_calls p v f r) = []"
  by (cases r) (simp_all add: round_calls_def vs_deletes_smart_sleep)

lemma vs_deletes_delete_both: "vs_deletes (delete_both w v f) = [v]"
  by (simp add: delete_both_def)

lemma poll_status_cases:
  obtains (again) "in_progress r"
  | (completed) s where "r = Inr s" "status s = ''completed''"
  | (failed) s where "r = Inr s" "status s = ''failed''"
  | (raised) e where "r = Inl e" "\<not> is_APIError e"
  by (cases r) (auto simp: in_progress_def pending_def)

lemma vs_deletes_poll_status:
  "vs_deletes (snd (poll_status p w v f rs)) =
     (case fst (poll_status p w v f rs) of Raises e \<Rightarrow> [v] | Returns u \<Rightarrow> [] | Hangs \<Rightarrow> [])"
proof (induction rs)
  case Nil
  show ?case by simp
next
  case (Cons r rs)
  show ?case
  proof (cases r rule: poll_status_cases)
    case again
    from poll_status_round [OF this, of p w v f rs] Cons.IH show ?thesis
      by (simp add: vs_deletes_append vs_deletes_round_calls)
  next
    case (completed s)
    with poll_status_completed [of s p w v f rs] show ?thesis by simp
  next
    case (failed s)
    with poll_status_failed [of s p w v f rs] show ?thesis by (simp add: vs_deletes_delete_both)
  next
    case (raised e)
    with poll_status_raised [of e p w v f rs] show ?thesis by (simp add: vs_deletes_delete_both)
  qed
qed

lemma vs_deletes_setup:
  assumes "files_create w = Inr f" and "vector_stores_create w = Inr v"
  shows "vs_deletes (snd (setup_file_search_vector_store p w path)) =
     (case fst (setup_file_search_vector_store p w path) of
        Raises e \<Rightarrow> [v] | Returns u \<Rightarrow> [] | Hangs \<Rightarrow> [])"
proof (cases "vector_stores_files_create w")
  case (Some e)
  with assms show ?thesis
    by (simp add: setup_file_search_vector_store_def vs_deletes_delete_both)
next
  case None
  show ?thesis
    using vs_deletes_poll_status [of p w v f "vector_stores_files_retrieve w"]
    by (simp add: setup_polls [OF assms None] split: res.splits)
qed

lemma setup_returns_id:
  assumes "vector_stores_create w = Inr v"
    and "fst (setup_file_search_vector_store p w path) = Returns u"
  shows "u = v"
  using assms
  by (auto simp: setup_file_search_vector_store_def split: sum.splits option.splits prod.splits res.splits)

lemma vs_deletes_run_file_search: "vs_deletes (snd (run_file_search w q v m)) = []"
  by (simp add: run_file_search_def split: sum.splits)

lemma run_file_search_not_Hangs: "fst (run_file_search w q v m) \<noteq> Hangs"
  by (simp add: run_file_search_def split: sum.splits)

lemma file_job_body_found:
  assumes "jb ''file_path'' = Some (YStr fp)" and "expanduser w fp = Inr path"
    and "path_exists w path"
  shows "file_job_body p w jb m =
     (case setup_file_search_vector_store p w path of
        (Raises e, ev) \<Rightarrow> (Raises e, ev, None)
      | (Hangs, ev) \<Rightarrow> (Hangs, ev, None)
      | (Returns v, ev) \<Rightarrow>
          (case jb ''query'' of
             None \<Rightarrow> (Raises (KeyError ''query''), ev, Some v)
           | Some q \<Rightarrow>
               (case run_file_search w q v m of
                  (r, ev') \<Rightarrow> (r, ev @ ev', Some v))))"
  using assms by (simp add: file_job_body_def)

lemma dispatch_file:
  assumes "jb ''type'' = Some (YStr t)" and "lower t = ''file''"
  shows "dispatch p w jb =
     (case file_job_body p w jb (file_model jb) of
        (r, ev, vector_store_id) \<Rightarrow>
          (case r of
             Hangs \<Rightarrow> (Hangs, ev)
           | _ \<Rightarrow>
               (r, ev @ (case vector_store_id of
                           None \<Rightarrow> []
                         | Some v \<Rightarrow> if v \<noteq> [] then cleanup_vector_store w v else []))))"
  using assms by (simp add: dispatch_def file_model_def Let_def del: truthy.simps)

lemma vs_deletes_dispatch_file:
  assumes "jb ''type'' = Some (YStr t)" and "lower t = ''file''"
    and "jb ''file_path'' = Some (YStr fp)" and "expanduser w fp = Inr path"
    and "path_exists w path"
    and "files_create w = Inr f" and "vector_stores_create w = Inr v" and "v \<noteq> []"
    and "fst (dispatch p w jb) \<noteq> Hangs"
  shows "vs_deletes (snd (dispatch p w jb)) = [v]"
proof -
  obtain sr sev where su: "setup_file_search_vector_store p w path = (sr, sev)"
    by (cases "setup_file_search_vector_store p w path")
  have del: "vs_deletes sev = (case sr of Raises e \<Rightarrow> [v] | Returns u \<Rightarrow> [] | Hangs \<Rightarrow> [])"
    using vs_deletes_setup [OF assms(6,7), of p path] su by simp
  note body = file_job_body_found [where jb = jb and p = p and m = "file_model jb", OF assms(3,4,5)]
  note disp = dispatch_file [where jb = jb and p = p and w = w, OF assms(1,2)]
  show ?thesis
  proof (cases sr)
    case (Raises e)
    with su del body disp show ?thesis by simp
  next
    case Hangs
    with su body disp assms(9) show ?thesis by simp
  next
    case (Returns u)
    with su assms(7) have u: "u = v"
      using setup_returns_id [of w v p path u] by simp
    show ?thesis
    proof (cases "jb ''query''")
      case None
      with Returns u su del body disp assms(8) show ?thesis
        by (simp add: vs_deletes_append cleanup_vector_store_def)
    next
      case (Some q)
      obtain r ev' where q: "run_file_search w q v (file_model jb) = (r, ev')"
        by (cases "run_file_search w q v (file_model jb)")
      with run_file_search_not_Hangs [of w q v "file_model jb"] have r: "r \<noteq> Hangs" by simp
      from vs_deletes_run_file_search [of w q v "file_model jb"] q have e: "vs_deletes ev' = []" by simp
      from Some Returns u su del body disp assms(8) q r e show ?thesis
        by (cases r) (simp_all add: vs_deletes_append cleanup_vector_store_def)
    qed
  qed
qed

lemma vs_deletes_process_job:
  "vs_deletes (snd (process_job p sl w od jb)) = vs_deletes (snd (dispatch p w jb))"
  by (cases "dispatch p w jb")
    (auto simp: process_job_def vs_deletes_append vs_deletes_smart_sleep
       split: res.splits option.splits yval.splits)

lemma process_job_Hangs:
  "fst (process_job p sl w od jb) = Hangs \<longleftrightarrow> fst (dispatch p w jb) = Hangs"
  by (cases "dispatch p w jb")
    (auto simp: process_job_def split: res.splits option.splits yval.splits)


lemmas program_defs =
  process_job_def dispatch_def file_job_body_def setup_file_search_vector_store_def
  poll_body_def run_file_search_def run_web_search_def smart_sleep_def
  cleanup_vector_store_def delete_both_def DEFAULT_FILE_MODEL_def DEFAULT_WEB_MODEL_def
  lower_def lower_char_def path_join_def parse_path_def splitroot_def quote_def

lemmas example_defs =
  ready_world_def bad_format_world_def add_fails_world_def check_raises_world_def
  query_fails_world_def file_job_def missing_file_job_def web_job_def other_web_job_def
  no_query_job_def third_job_def unknown_type_job_def numeric_type_job_def no_path_job_def
  no_type_job_def no_out_job_def file_no_query_job_def dotdot_job_def
  connection_fails_world_def stash_eq

lemma file_job_succeeds:
  "process_job 5 (1 / 4) ready_world stash file_job =
     (Returns (),
      [FilesCreate ''docs/my_document.pdf'', VectorStoresCreate,
       VectorStoresFilesCreate ''vs_1'' ''file-1'',
       VectorStoresFilesRetrieve ''vs_1'' ''file-1'', Sleep 5,
       VectorStoresFilesRetrieve ''vs_1'' ''file-1'',
       ResponsesCreate (YStr ''Summarize the document.'') (YStr ''gpt-4o-mini'') (Some ''vs_1''),
       VectorStoresDelete ''vs_1'' None,
       WriteText \<lparr>anchor = [], parts = [''stash'', ''20250101_120000'', ''my_document_summary.json'']\<rparr>
         \<lparr>r_query = YStr ''Summarize the document.'', r_created = ''20250101_120000'',
          r_model = YStr ''gpt-4o-mini'', r_vector_store_id = Some ''vs_1'',
          r_output_text = ''answer'', r_output_structured = []\<rparr>,
       Sleep (1 / 4)])"
  by (simp add: program_defs example_defs)

lemma file_job_query_fails:
  "process_job 5 (1 / 4) query_fails_world stash file_job =
     (Raises (APIError ''server error''),
      [FilesCreate ''docs/my_document.pdf'', VectorStoresCreate,
       VectorStoresFilesCreate ''vs_1'' ''file-1'',
       VectorStoresFilesRetrieve ''vs_1'' ''file-1'', Sleep 5,
       VectorStoresFilesRetrieve ''vs_1'' ''file-1'',
       ResponsesCreate (YStr ''Summarize the document.'') (YStr ''gpt-4o-mini'') (Some ''vs_1''),
       VectorStoresDelete ''vs_1'' None])"
  by (simp add: program_defs example_defs)

lemma file_job_add_fails:
  "process_job 5 (1 / 4) add_fails_world stash file_job =
     (Raises (APIError ''bad request''),
      [FilesCreate ''docs/my_document.pdf'', VectorStoresCreate,
       VectorStoresFilesCreate ''vs_1'' ''file-1'',
       VectorStoresDelete ''vs_1'' None, FilesDelete ''file-1'' None])"
  by (simp add: program_defs example_defs)

lemma file_job_check_raises:
  "process_job 5 (1 / 4) check_raises_world stash file_job =
     (Raises (OtherException ''timed out''),
      [FilesCreate ''docs/my_document.pdf'', VectorStoresCreate,
       VectorStoresFilesCreate ''vs_1'' ''file-1'',
       VectorStoresFilesRetrieve ''vs_1'' ''file-1'',
       VectorStoresDelete ''vs_1'' None, FilesDelete ''file-1'' None])"
  by (simp add: program_defs example_defs)

lemma file_job_processing_fails:
  "process_job 5 (1 / 4) bad_format_world stash file_job =
     (Raises (RuntimeError ''File processing failed: bad format''),
      [FilesCreate ''docs/my_document.pdf'', VectorStoresCreate,
       VectorStoresFilesCreate ''vs_1'' ''file-1'',
       VectorStoresFilesRetrieve ''vs_1'' ''file-1'', Sleep 5,
       VectorStoresFilesRetrieve ''vs_1'' ''file-1'',
       VectorStoresDelete ''vs_1'' (Some (APIError ''not found'')),
       FilesDelete ''file-1'' (Some (OtherException ''connection reset''))])"
  by (simp add: program_defs example_defs)

section \<open>Facts about the job loop\<close>

lemma print_header_string: "jb ''type'' = Some (YStr t) \<Longrightarrow> print_header jb = None"
  by (simp add: print_header_def)

lemma run_jobs_raises:
  assumes "print_header jb = None" and "process_job p sl w od jb = (Raises e, ev)"
    and "handler_raises e = None"
  shows "run_jobs p sl od n ((jb, w) # rest) =
     logged_failure (classify e) e ev (run_jobs p sl od (n + 1) rest)"
  using assms by (simp add: logged_failure_def Let_def)

lemma run_jobs_completes:
  assumes "\<forall>(jb, w) \<in> set jobs.
      print_header jb = None \<and> settles (fst (process_job p sl w od jb))"
  shows "run_jobs p sl od n jobs =
     \<lparr>attempts = map (\<lambda>(jb, w). log_of (fst (process_job p sl w od jb))) jobs,
      job_failures =
        n + length (filter is_failed (map (\<lambda>(jb, w). log_of (fst (process_job p sl w od jb))) jobs)),
      calls = concat (map (\<lambda>(jb, w). snd (process_job p sl w od jb)) jobs),
      ending = Completed\<rparr>"
  using assms
proof (induction jobs arbitrary: n)
  case Nil
  show ?case by simp
next
  case (Cons x jobs)
  obtain jb w where x: "x = (jb, w)" by (cases x)
  obtain r ev where pj: "process_job p sl w od jb = (r, ev)" by (cases "process_job p sl w od jb")
  from Cons.prems x pj have hd: "print_header jb = None" and ok: "settles r" by simp_all
  from Cons.prems have rest: "\<forall>(jb, w) \<in> set jobs.
      print_header jb = None \<and> settles (fst (process_job p sl w od jb))" by simp
  show ?case
  proof (cases r)
    case (Returns u)
    with hd pj x Cons.IH [OF rest, of n] show ?thesis by (simp add: Let_def)
  next
    case (Raises e)
    with ok have "handler_raises e = None" by simp
    with Raises hd pj x Cons.IH [OF rest, of "n + 1"] show ?thesis by (simp add: Let_def)
  next
    case Hangs
    with ok show ?thesis by simp
  qed
qed

lemma dispatch_missing_file:
  assumes "jb ''type'' = Some (YStr t)" and "lower t = ''file''"
    and "jb ''file_path'' = Some (YStr fp)" and "expanduser w fp = Inr path"
    and "\<not> path_exists w path"
  shows "dispatch p w jb = (Raises (FileNotFoundError (''File not found at path: '' @ path)), [])"
  using assms dispatch_file [where jb = jb and p = p and w = w, OF assms(1,2)]
  by (simp add: file_job_body_def)

lemma process_job_raises:
  "dispatch p w jb = (Raises e, ev) \<Longrightarrow> process_job p sl w od jb = (Raises e, ev)"
  by (simp add: process_job_def)

lemma lower_File: "lower ''File'' = ''file''" by (simp add: lower_def lower_char_def)

lemma dispatch_unknown_type:
  assumes "jb ''type'' = Some (YStr t)" and "lower t \<noteq> ''web''" and "lower t \<noteq> ''file''"
  shows "dispatch p w jb = (Raises (ValueError (''Unknown job type: '' @ lower t)), [])"
  using assms by (simp add: dispatch_def Let_def del: truthy.simps)

lemma dispatch_file_no_path:
  assumes "jb ''type'' = Some (YStr t)" and "lower t = ''file''" and "jb ''file_path'' = None"
  shows "dispatch p w jb =
     (Raises (ValueError (''Job type '' @ quote @ ''file'' @ quote @ '' requires '' @ quote
                     @ ''file_path'' @ quote @ '' for this script.'')), [])"
  using assms(3) dispatch_file [where jb = jb and p = p and w = w, OF assms(1,2)]
  by (simp add: file_job_body_def)

lemma dispatch_web_no_query:
  assumes "jb ''type'' = Some (YStr t)" and "lower t = ''web''" and "jb ''query'' = None"
  shows "dispatch p w jb = (Raises (KeyError ''query''), [])"
  using assms by (simp add: dispatch_def Let_def del: truthy.simps)

lemma web_job_succeeds:
  "process_job 5 (1 / 4) ready_world stash web_job =
     (Returns (),
      [ResponsesCreate (YStr ''latest emperor penguin population study'') (YStr ''gpt-4.1'') None,
       WriteText \<lparr>anchor = [], parts = [''stash'', ''20250101_120000'', ''penguin_pop.json'']\<rparr>
         \<lparr>r_query = YStr ''latest emperor penguin population study'',
          r_created = ''20250101_120000'', r_model = YStr ''gpt-4.1'',
          r_vector_store_id = None, r_output_text = ''answer'', r_output_structured = []\<rparr>,
       Sleep (1 / 4)])"
  by (simp add: program_defs example_defs)

lemma other_web_job_succeeds:
  "process_job 5 (1 / 4) ready_world stash other_web_job =
     (Returns (),
      [ResponsesCreate (YStr ''tardigrade habitats'') (YStr ''gpt-4.1'') None,
       WriteText \<lparr>anchor = [], parts = [''stash'', ''20250101_120000'', ''penguin_pop.json'']\<rparr>
         \<lparr>r_query = YStr ''tardigrade habitats'',
          r_created = ''20250101_120000'', r_model = YStr ''gpt-4.1'',
          r_vector_store_id = None, r_output_text = ''answer'', r_output_structured = []\<rparr>,
       Sleep (1 / 4)])"
  by (simp add: program_defs example_defs)

lemma third_job_succeeds:
  "process_job 5 (1 / 4) ready_world stash third_job =
     (Returns (),
      [ResponsesCreate (YStr ''tardigrade habitats'') (YStr ''gpt-4.1'') None,
       WriteText \<lparr>anchor = [], parts = [''stash'', ''20250101_120000'', ''third.json'']\<rparr>
         \<lparr>r_query = YStr ''tardigrade habitats'',
          r_created = ''20250101_120000'', r_model = YStr ''gpt-4.1'',
          r_vector_store_id = None, r_output_text = ''answer'', r_output_structured = []\<rparr>,
       Sleep (1 / 4)])"
  by (simp add: program_defs example_defs)

lemma no_query_job_raises:
  "process_job 5 (1 / 4) ready_world stash no_query_job = (Raises (KeyError ''query''), [])"
  by (simp add: program_defs example_defs)

lemma unknown_type_job_raises:
  "process_job 5 (1 / 4) ready_world stash unknown_type_job =
     (Raises (ValueError ''Unknown job type: image''), [])"
  by (simp add: program_defs example_defs)

lemma example_headers:
  "print_header web_job = None" "print_header other_web_job = None"
  "print_header third_job = None" "print_header no_query_job = None"
  "print_header unknown_type_job = None" "print_header file_job = None"
  "print_header no_path_job = None"
  "print_header numeric_type_job = Some (AttributeError ''upper'')"
  by (simp_all add: print_header_def example_defs)

lemma third_job_alone:
  "run_jobs 5 (1 / 4) stash n [(third_job, ready_world)] =
     \<lparr>attempts = [Succeeded], job_failures = n,
      calls = [ResponsesCreate (YStr ''tardigrade habitats'') (YStr ''gpt-4.1'') None,
               WriteText \<lparr>anchor = [], parts = [''stash'', ''20250101_120000'', ''third.json'']\<rparr>
                 \<lparr>r_query = YStr ''tardigrade habitats'',
                  r_created = ''20250101_120000'', r_model = YStr ''gpt-4.1'',
                  r_vector_store_id = None, r_output_text = ''answer'', r_output_structured = []\<rparr>,
               Sleep (1 / 4)],
      ending = Completed\<rparr>"
  by (simp add: example_headers third_job_succeeds)

lemma outdir_of_example: "outdir_of (example_invocation jobs) = stash"
  by (simp add: outdir_of_def example_invocation_def stash_def)

lemma cli_runs:
  assumes "api_key_set a" and "jobs_file a = Inr jobs"
  shows "cli a =
     (let r = run_jobs (poll_interval a) (sleep_arg a) (outdir_of a) 0 jobs
      in case ending r of
           Crashed e \<Rightarrow> (Some r, None, ExitStatus 1)
         | Stuck \<Rightarrow> (Some r, None, NeverExits)
         | Completed \<Rightarrow>
             (Some r,
              Some (if job_failures r = 0 then AllCompleted else Encountered (job_failures r)),
              ExitStatus 0))"
  using assms by (simp add: cli_def outdir_of_def Let_def)

lemma is_failed_log_of:
  "is_failed (log_of r) = (case r of Raises e \<Rightarrow> True | Returns u \<Rightarrow> False | Hangs \<Rightarrow> False)"
  by (cases r) simp_all

lemma raised_count_logs:
  "raised_count p sl od jobs =
     length (filter is_failed (map (\<lambda>(jb, w). log_of (fst (process_job p sl w od jb))) jobs))"
  by (simp add: raised_count_def filter_map o_def is_failed_log_of case_prod_unfold)

section \<open>Facts about the output files\<close>

lemma write_paths_append: "write_paths (xs @ ys) = write_paths xs @ write_paths ys"
  by (induction xs rule: write_paths.induct) simp_all

lemma write_paths_smart_sleep: "write_paths (smart_sleep t) = []"
  by (simp add: smart_sleep_def)

lemma write_paths_round_calls: "write_paths (round_calls p v f r) = []"
  by (cases r) (simp_all add: round_calls_def write_paths_smart_sleep)

lemma write_paths_delete_both: "write_paths (delete_both w v f) = []"
  by (simp add: delete_both_def)

lemma write_paths_poll_status: "write_paths (snd (poll_status p w v f rs)) = []"
proof (induction rs)
  case Nil
  show ?case by simp
next
  case (Cons r rs)
  show ?case
  proof (cases r rule: poll_status_cases)
    case again
    from poll_status_round [OF this, of p w v f rs] Cons.IH show ?thesis
      by (simp add: write_paths_append write_paths_round_calls)
  next
    case (completed s)
    with poll_status_completed [of s p w v f rs] show ?thesis by simp
  next
    case (failed s)
    with poll_status_failed [of s p w v f rs] show ?thesis by (simp add: write_paths_delete_both)
  next
    case (raised e)
    with poll_status_raised [of e p w v f rs] show ?thesis by (simp add: write_paths_delete_both)
  qed
qed

lemma write_paths_setup: "write_paths (snd (setup_file_search_vector_store p w path)) = []"
proof (cases "files_create w")
  case (Inl e)
  then show ?thesis by (simp add: setup_file_search_vector_store_def)
next
  case f: (Inr f)
  show ?thesis
  proof (cases "vector_stores_create w")
    case (Inl e)
    with f show ?thesis by (simp add: setup_file_search_vector_store_def)
  next
    case v: (Inr v)
    show ?thesis
    proof (cases "vector_stores_files_create w")
      case (Some e)
      with f v show ?thesis
        by (simp add: setup_file_search_vector_store_def write_paths_delete_both)
    next
      case None
      show ?thesis
        by (simp add: setup_polls [OF f v None] write_paths_poll_status)
    qed
  qed
qed

lemma write_paths_run_file_search: "write_paths (snd (run_file_search w q v m)) = []"
  by (simp add: run_file_search_def split: sum.splits)

lemma write_paths_run_web_search: "write_paths (snd (run_web_search w q m)) = []"
  by (simp add: run_web_search_def split: sum.splits)


lemma write_paths_file_job_body: "write_paths (fst (snd (file_job_body p w jb m))) = []"
proof (cases "jb ''file_path''")
  case None
  then show ?thesis by (simp add: file_job_body_def)
next
  case (Some y)
  show ?thesis
  proof (cases y)
    case (YStr fp)
    show ?thesis
    proof (cases "expanduser w fp")
      case (Inl e)
      with Some YStr show ?thesis by (simp add: file_job_body_def)
    next
      case (Inr path)
      show ?thesis
      proof (cases "path_exists w path")
        case False
        with Some YStr Inr show ?thesis by (simp add: file_job_body_def)
      next
        case True
        note found = file_job_body_found [where jb = jb and p = p and m = m,
            OF Some [unfolded YStr] Inr True]
        obtain sr sev where su: "setup_file_search_vector_store p w path = (sr, sev)"
          by (cases "setup_file_search_vector_store p w path")
        with write_paths_setup [of p w path] have sev: "write_paths sev = []" by simp
        show ?thesis
        proof (cases sr)
          case (Raises e)
          with found su sev show ?thesis by simp
        next
          case Hangs
          with found su sev show ?thesis by simp
        next
          case (Returns v)
          show ?thesis
          proof (cases "jb ''query''")
            case None
            with found su sev Returns show ?thesis by simp
          next
            case q: (Some q)
            obtain r ev' where rf: "run_file_search w q v m = (r, ev')"
              by (cases "run_file_search w q v m")
            with write_paths_run_file_search [of w q v m] have "write_paths ev' = []" by simp
            with found su sev Returns q rf show ?thesis by (simp add: write_paths_append)
          qed
        qed
      qed
    qed
  qed (use Some in \<open>simp_all add: file_job_body_def\<close>)
qed


lemma dispatch_web:
  assumes "jb ''type'' = Some (YStr t)" and "lower t = ''web''" and "jb ''query'' = Some q"
  shows "dispatch p w jb =
     run_web_search w q
       (if \<not> truthy (case jb ''model'' of None \<Rightarrow> YNull | Some m \<Rightarrow> m)
        then YStr DEFAULT_WEB_MODEL
        else (case jb ''model'' of None \<Rightarrow> YNull | Some m \<Rightarrow> m))"
  using assms by (simp add: dispatch_def Let_def del: truthy.simps)

lemma dispatch_no_type: "jb ''type'' = None \<Longrightarrow> dispatch p w jb = (Raises (KeyError ''type''), [])"
  by (simp add: dispatch_def)

lemma dispatch_type_not_string:
  "jb ''type'' = Some y \<Longrightarrow> \<not> (\<exists>t. y = YStr t) \<Longrightarrow>
   dispatch p w jb = (Raises (AttributeError ''lower''), [])"
  by (cases y) (simp_all add: dispatch_def)

lemma write_paths_dispatch: "write_paths (snd (dispatch p w jb)) = []"
proof (cases "jb ''type''")
  case None
  then show ?thesis by (simp add: dispatch_no_type)
next
  case (Some y)
  show ?thesis
  proof (cases "\<exists>t. y = YStr t")
    case False
    from dispatch_type_not_string [where jb = jb and p = p and w = w, OF Some False] show ?thesis by simp
  next
    case True
    then obtain t where y: "y = YStr t" by blast
    note ty = Some [unfolded y]
    consider (is_web) "lower t = ''web''" | (is_file) "lower t = ''file''"
      | (other) "lower t \<noteq> ''web''" "lower t \<noteq> ''file''"
      by blast
    then show ?thesis
    proof cases
      case is_web
      show ?thesis
      proof (cases "jb ''query''")
        case None
        with dispatch_web_no_query [where jb = jb, OF ty is_web, of p w] show ?thesis by simp
      next
        case (Some q)
        with dispatch_web [where jb = jb, OF ty is_web, of q p w] show ?thesis
          by (simp add: write_paths_run_web_search)
      qed
    next
      case is_file
      obtain r ev vid where b: "file_job_body p w jb (file_model jb) = (r, ev, vid)"
        by (cases "file_job_body p w jb (file_model jb)")
      with write_paths_file_job_body [of p w jb "file_model jb"] have ev: "write_paths ev = []"
        by simp
      have c: "write_paths (case vid of None \<Rightarrow> [] | Some v \<Rightarrow> if v \<noteq> [] then cleanup_vector_store w v else []) = []"
        by (cases vid) (simp_all add: cleanup_vector_store_def)
      from dispatch_file [where jb = jb and p = p and w = w, OF ty is_file] b ev c
      show ?thesis by (cases r) (simp_all add: write_paths_append)
    next
      case other
      with dispatch_unknown_type [where jb = jb, OF ty other, of p w] show ?thesis by simp
    qed
  qed
qed


lemma write_paths_process_job:
  "write_paths (snd (process_job p sl w od jb)) =
     (case fst (process_job p sl w od jb) of
        Returns u \<Rightarrow> (case jb ''out'' of Some (YStr out) \<Rightarrow> [path_join od out] | _ \<Rightarrow> [])
      | Raises e \<Rightarrow> []
      | Hangs \<Rightarrow> [])"
proof -
  obtain r ev where d: "dispatch p w jb = (r, ev)" by (cases "dispatch p w jb")
  with write_paths_dispatch [of p w jb] have ev: "write_paths ev = []" by simp
  show ?thesis
  proof (cases r)
    case (Raises e)
    with d ev show ?thesis by (simp add: process_job_def)
  next
    case Hangs
    with d ev show ?thesis by (simp add: process_job_def)
  next
    case (Returns rslt)
    show ?thesis
    proof (cases "jb ''out''")
      case None
      with d ev Returns show ?thesis by (simp add: process_job_def)
    next
      case (Some y)
      show ?thesis
      proof (cases y)
        case (YStr out)
        with d ev Returns Some show ?thesis
          by (cases "write_text w")
            (simp_all add: process_job_def write_paths_append write_paths_smart_sleep)
      qed (use d ev Returns Some in \<open>simp_all add: process_job_def\<close>)
    qed
  qed
qed

lemma two_web_jobs_run:
  "calls (run_jobs 5 (1 / 4) stash 0 [(web_job, ready_world), (other_web_job, ready_world)]) =
     [ResponsesCreate (YStr ''latest emperor penguin population study'') (YStr ''gpt-4.1'') None,
      WriteText \<lparr>anchor = [], parts = [''stash'', ''20250101_120000'', ''penguin_pop.json'']\<rparr>
        \<lparr>r_query = YStr ''latest emperor penguin population study'',
         r_created = ''20250101_120000'', r_model = YStr ''gpt-4.1'',
         r_vector_store_id = None, r_output_text = ''answer'', r_output_structured = []\<rparr>,
      Sleep (1 / 4),
      ResponsesCreate (YStr ''tardigrade habitats'') (YStr ''gpt-4.1'') None,
      WriteText \<lparr>anchor = [], parts = [''stash'', ''20250101_120000'', ''penguin_pop.json'']\<rparr>
        \<lparr>r_query = YStr ''tardigrade habitats'',
         r_created = ''20250101_120000'', r_model = YStr ''gpt-4.1'',
         r_vector_store_id = None, r_output_text = ''answer'', r_output_structured = []\<rparr>,
      Sleep (1 / 4)]"
  by (simp add: example_headers web_job_succeeds other_web_job_succeeds)

lemma written_None:
  "written fs pth es = None \<longleftrightarrow> fs pth \<notin> fs ` set (write_paths es)"
  by (induction fs pth es rule: written.induct) (auto split: option.splits)

lemma written_kept:
  assumes "distinct (map fs (write_paths es))" and "WriteText pth r \<in> set es"
  shows "written fs pth es = Some r"
  using assms
proof (induction es)
  case Nil
  then show ?case by simp
next
  case (Cons e es)
  show ?case
  proof (cases e)
    case (WriteText q r')
    from Cons.prems(1) WriteText
    have fresh: "fs q \<notin> fs ` set (write_paths es)" and rest: "distinct (map fs (write_paths es))"
      by simp_all
    show ?thesis
    proof (cases "WriteText pth r \<in> set es")
      case True
      from Cons.IH [OF rest True] WriteText show ?thesis by simp
    next
      case False
      with Cons.prems(2) WriteText have same: "q = pth" "r' = r" by simp_all
      from fresh same have "written fs pth es = None" by (simp add: written_None)
      with WriteText same show ?thesis by simp
    qed
  qed (use Cons in \<open>simp_all\<close>)
qed

lemma head_writes:
  "write_paths (snd (process_job p sl w od jb)) = [] \<or>
   (\<exists>t. target od jb = Some t \<and> write_paths (snd (process_job p sl w od jb)) = [t])"
  using write_paths_process_job [of p sl w od jb]
  by (cases "fst (process_job p sl w od jb)")
    (auto simp: target_def split: option.splits yval.splits)

lemma targets_Cons:
  "targets od ((jb, w) # jobs) =
     (case target od jb of None \<Rightarrow> targets od jobs | Some t \<Rightarrow> t # targets od jobs)"
  unfolding targets_def by simp

lemma run_jobs_writes:
  "\<exists>ks. write_paths (calls (run_jobs p sl od n jobs)) = ks
         \<and> set ks \<subseteq> set (targets od jobs)
         \<and> (distinct (map fs (targets od jobs)) \<longrightarrow> distinct (map fs ks))"
proof (induction jobs arbitrary: n)
  case Nil
  show ?case by simp
next
  case (Cons x jobs)
  obtain jb w where x: "x = (jb, w)" by (cases x)
  have no_write: ?case if "write_paths (calls (run_jobs p sl od n (x # jobs))) = []"
    using that by simp
  have tail: ?case
    if "write_paths (calls (run_jobs p sl od n (x # jobs))) = write_paths (calls (run_jobs p sl od m jobs))"
    for m
  proof -
    from Cons.IH [of m] have
      ks: "set (write_paths (calls (run_jobs p sl od m jobs))) \<subseteq> set (targets od jobs)"
        "distinct (map fs (targets od jobs)) \<longrightarrow> distinct (map fs (write_paths (calls (run_jobs p sl od m jobs))))"
      by simp_all
    from ks(1) x have a: "set (write_paths (calls (run_jobs p sl od m jobs))) \<subseteq> set (targets od (x # jobs))"
      by (auto simp: targets_Cons split: option.splits)
    from ks(2) x have b: "distinct (map fs (targets od (x # jobs))) \<longrightarrow>
        distinct (map fs (write_paths (calls (run_jobs p sl od m jobs))))"
      by (auto simp: targets_Cons split: option.splits)
    from that a b show ?thesis by simp
  qed
  show ?case
  proof (cases "print_header jb")
    case (Some e)
    show ?thesis by (rule no_write) (use x Some in simp)
  next
    case None
    obtain r ev where pj: "process_job p sl w od jb = (r, ev)" by (cases "process_job p sl w od jb")
    from head_writes [of p sl w od jb] pj
    consider (none) "write_paths ev = []"
      | (one) t where "target od jb = Some t" "write_paths ev = [t]"
      by auto
    then show ?thesis
    proof cases
      case none
      show ?thesis
      proof (cases r)
        case Hangs
        show ?thesis by (rule no_write) (use x None pj none Hangs in simp)
      next
        case (Returns u)
        show ?thesis
          by (rule tail [of n]) (use x None pj none Returns in \<open>simp add: Let_def write_paths_append\<close>)
      next
        case (Raises e)
        show ?thesis
        proof (cases "handler_raises e")
          case (Some e')
          show ?thesis by (rule no_write) (use x None pj none Raises Some in simp)
        next
          case no: None
          show ?thesis
            by (rule tail [of "n + 1"])
              (use x None pj none Raises no in \<open>simp add: Let_def write_paths_append\<close>)
        qed
      qed
    next
      case (one t)
      have outs: "targets od (x # jobs) = t # targets od jobs"
        using x one(1) by (simp add: targets_Cons)
      show ?thesis
      proof (cases r)
        case Hangs
        with write_paths_process_job [of p sl w od jb] pj one(2) show ?thesis by simp
      next
        case (Raises e)
        with write_paths_process_job [of p sl w od jb] pj one(2) show ?thesis by simp
      next
        case (Returns u)
        from Cons.IH [of n] have
          ks: "set (write_paths (calls (run_jobs p sl od n jobs))) \<subseteq> set (targets od jobs)"
            "distinct (map fs (targets od jobs)) \<longrightarrow> distinct (map fs (write_paths (calls (run_jobs p sl od n jobs))))"
          by simp_all
        from x None pj one(2) Returns
        have w: "write_paths (calls (run_jobs p sl od n (x # jobs))) =
            t # write_paths (calls (run_jobs p sl od n jobs))"
          by (simp add: Let_def write_paths_append)
        from ks(1) have a: "set (t # write_paths (calls (run_jobs p sl od n jobs))) \<subseteq> set (targets od (x # jobs))"
          by (auto simp: outs)
        from ks have b: "distinct (map fs (targets od (x # jobs))) \<longrightarrow>
            distinct (map fs (t # write_paths (calls (run_jobs p sl od n jobs))))"
          by (auto simp: outs)
        from w a b show ?thesis by simp
      qed
    qed
  qed
qed

lemma dotdot_job_succeeds:
  "process_job 5 (1 / 4) ready_world stash dotdot_job =
     (Returns (),
      [ResponsesCreate (YStr ''tardigrade habitats'') (YStr ''gpt-4.1'') None,
       WriteText \<lparr>anchor = [], parts = [''stash'', ''20250101_120000'', ''sub'', ''..'', ''penguin_pop.json'']\<rparr>
         \<lparr>r_query = YStr ''tardigrade habitats'',
          r_created = ''20250101_120000'', r_model = YStr ''gpt-4.1'',
          r_vector_store_id = None, r_output_text = ''answer'', r_output_structured = []\<rparr>,
       Sleep (1 / 4)])"
  by (simp add: program_defs example_defs)

lemma web_then_dotdot_run:
  "calls (run_jobs 5 (1 / 4) stash 0 [(web_job, ready_world), (dotdot_job, ready_world)]) =
     [ResponsesCreate (YStr ''latest emperor penguin population study'') (YStr ''gpt-4.1'') None,
      WriteText \<lparr>anchor = [], parts = [''stash'', ''20250101_120000'', ''penguin_pop.json'']\<rparr>
        \<lparr>r_query = YStr ''latest emperor penguin population study'',
         r_created = ''20250101_120000'', r_model = YStr ''gpt-4.1'',
         r_vector_store_id = None, r_output_text = ''answer'', r_output_structured = []\<rparr>,
      Sleep (1 / 4),
      ResponsesCreate (YStr ''tardigrade habitats'') (YStr ''gpt-4.1'') None,
      WriteText \<lparr>anchor = [], parts = [''stash'', ''20250101_120000'', ''sub'', ''..'', ''penguin_pop.json'']\<rparr>
        \<lparr>r_query = YStr ''tardigrade habitats'',
         r_created = ''20250101_120000'', r_model = YStr ''gpt-4.1'',
         r_vector_store_id = None, r_output_text = ''answer'', r_output_structured = []\<rparr>,
      Sleep (1 / 4)]"
proof -
  have "print_header dotdot_job = None" by (simp add: print_header_def dotdot_job_def)
  then show ?thesis
    by (simp add: example_headers web_job_succeeds dotdot_job_succeeds)
qed

lemma web_then_third_run:
  "calls (run_jobs 5 (1 / 4) stash 0 [(web_job, ready_world), (third_job, ready_world)]) =
     [ResponsesCreate (YStr ''latest emperor penguin population study'') (YStr ''gpt-4.1'') None,
      WriteText \<lparr>anchor = [], parts = [''stash'', ''20250101_120000'', ''penguin_pop.json'']\<rparr>
        \<lparr>r_query = YStr ''latest emperor penguin population study'',
         r_created = ''20250101_120000'', r_model = YStr ''gpt-4.1'',
         r_vector_store_id = None, r_output_text = ''answer'', r_output_structured = []\<rparr>,
      Sleep (1 / 4),
      ResponsesCreate (YStr ''tardigrade habitats'') (YStr ''gpt-4.1'') None,
      WriteText \<lparr>anchor = [], parts = [''stash'', ''20250101_120000'', ''third.json'']\<rparr>
        \<lparr>r_query = YStr ''tardigrade habitats'',
         r_created = ''20250101_120000'', r_model = YStr ''gpt-4.1'',
         r_vector_store_id = None, r_output_text = ''answer'', r_output_structured = []\<rparr>,
      Sleep (1 / 4)]"
  by (simp add: example_headers web_job_succeeds third_job_succeeds)

lemma example_targets:
  "targets stash [(web_job, ready_world), (third_job, ready_world)] =
     [\<lparr>anchor = [], parts = [''stash'', ''20250101_120000'', ''penguin_pop.json'']\<rparr>,
      \<lparr>anchor = [], parts = [''stash'', ''20250101_120000'', ''third.json'']\<rparr>]"
  by (simp add: targets_def target_def web_job_def third_job_def stash_eq path_join_def
      parse_path_def splitroot_def)

lemma posix_file_examples:
  "posix_file \<lparr>anchor = [], parts = [''stash'', ''20250101_120000'', ''penguin_pop.json'']\<rparr> =
     \<lparr>anchor = [], parts = [''stash'', ''20250101_120000'', ''penguin_pop.json'']\<rparr>"
  "posix_file \<lparr>anchor = [], parts = [''stash'', ''20250101_120000'', ''third.json'']\<rparr> =
     \<lparr>anchor = [], parts = [''stash'', ''20250101_120000'', ''third.json'']\<rparr>"
  "posix_file \<lparr>anchor = [], parts = [''stash'', ''20250101_120000'', ''sub'', ''..'', ''penguin_pop.json'']\<rparr> =
     \<lparr>anchor = [], parts = [''stash'', ''20250101_120000'', ''penguin_pop.json'']\<rparr>"
  by (simp_all add: posix_file_def)

section \<open>Facts about malformed jobs\<close>

lemma file_job_body_no_query:
  assumes "jb ''query'' = None"
  shows "fst (file_job_body p w jb m) \<noteq> Returns x"
proof (cases "jb ''file_path''")
  case None
  then show ?thesis by (simp add: file_job_body_def)
next
  case (Some y)
  show ?thesis
  proof (cases y)
    case (YStr fp)
    show ?thesis
    proof (cases "expanduser w fp")
      case (Inl e)
      with Some YStr show ?thesis by (simp add: file_job_body_def)
    next
      case (Inr path)
      show ?thesis
      proof (cases "path_exists w path")
        case False
        with Some YStr Inr show ?thesis by (simp add: file_job_body_def)
      next
        case True
        note found = file_job_body_found [where jb = jb and p = p and m = m,
            OF Some [unfolded YStr] Inr True]
        obtain sr sev where su: "setup_file_search_vector_store p w path = (sr, sev)"
          by (cases "setup_file_search_vector_store p w path")
        from found su assms show ?thesis by (cases sr) simp_all
      qed
    qed
  qed (use Some in \<open>simp_all add: file_job_body_def\<close>)
qed

lemma file_job_reaches_query:
  assumes "jb ''type'' = Some (YStr t)" and "lower t = ''file''" and "jb ''query'' = None"
    and "jb ''file_path'' = Some (YStr fp)" and "expanduser w fp = Inr path"
    and "path_exists w path"
    and "fst (setup_file_search_vector_store p w path) = Returns v"
  shows "fst (dispatch p w jb) = Raises (KeyError ''query'')"
proof -
  obtain sev where su: "setup_file_search_vector_store p w path = (Returns v, sev)"
    using assms(7) by (cases "setup_file_search_vector_store p w path") simp
  from file_job_body_found [where jb = jb and p = p and m = "file_model jb", OF assms(4,5,6)]
    su assms(3)
  have "file_job_body p w jb (file_model jb) = (Raises (KeyError ''query''), sev, Some v)"
    by simp
  with dispatch_file [where jb = jb and p = p and w = w, OF assms(1,2)]
  show ?thesis by simp
qed

lemma dispatch_Returns_wellformed:
  assumes "fst (dispatch p w jb) = Returns r"
  shows "\<exists>t. jb ''type'' = Some (YStr t) \<and> jb ''query'' \<noteq> None
           \<and> (lower t = ''web'' \<or> (lower t = ''file'' \<and> jb ''file_path'' \<noteq> None))"
proof (cases "jb ''type''")
  case None
  with assms show ?thesis by (simp add: dispatch_no_type)
next
  case (Some y)
  show ?thesis
  proof (cases "\<exists>t. y = YStr t")
    case False
    from dispatch_type_not_string [where jb = jb and p = p and w = w, OF Some False] assms
    show ?thesis by simp
  next
    case True
    then obtain t where y: "y = YStr t" by blast
    note ty = Some [unfolded y]
    consider (is_web) "lower t = ''web''" | (is_file) "lower t = ''file''"
      | (other) "lower t \<noteq> ''web''" "lower t \<noteq> ''file''"
      by blast
    then show ?thesis
    proof cases
      case is_web
      show ?thesis
      proof (cases "jb ''query''")
        case None
        with dispatch_web_no_query [where jb = jb, OF ty is_web, of p w] assms show ?thesis by simp
      next
        case (Some q)
        with ty is_web show ?thesis by simp
      qed
    next
      case is_file
      have q: "jb ''query'' \<noteq> None"
      proof
        assume n: "jb ''query'' = None"
        obtain r' ev vid where b: "file_job_body p w jb (file_model jb) = (r', ev, vid)"
          by (cases "file_job_body p w jb (file_model jb)")
        with file_job_body_no_query [where jb = jb and p = p and w = w and m = "file_model jb", OF n]
        have "\<forall>x. r' \<noteq> Returns x"
          by simp
        with dispatch_file [where jb = jb and p = p and w = w, OF ty is_file] b assms
        show False by (cases r') auto
      qed
      have fp: "jb ''file_path'' \<noteq> None"
      proof
        assume "jb ''file_path'' = None"
        from dispatch_file_no_path [where jb = jb, OF ty is_file this, of p w] assms
        show False by simp
      qed
      from ty is_file q fp show ?thesis by simp
    next
      case other
      with dispatch_unknown_type [where jb = jb, OF ty other, of p w] assms show ?thesis by simp
    qed
  qed
qed

lemma process_job_Returns:
  assumes "fst (process_job p sl w od jb) = Returns u"
  shows "jb ''out'' \<noteq> None \<and> (\<exists>r. fst (dispatch p w jb) = Returns r)"
proof -
  obtain r ev where d: "dispatch p w jb = (r, ev)" by (cases "dispatch p w jb")
  show ?thesis
  proof (cases r)
    case (Returns rslt)
    with d assms show ?thesis by (cases "jb ''out''") (simp_all add: process_job_def)
  next
    case (Raises e)
    with d assms show ?thesis by (simp add: process_job_def)
  next
    case Hangs
    with d assms show ?thesis by (simp add: process_job_def)
  qed
qed

lemma process_job_no_out:
  assumes "jb ''out'' = None" and "fst (dispatch p w jb) = Returns r"
  shows "fst (process_job p sl w od jb) = Raises (KeyError ''out'')"
proof -
  obtain ev where d: "dispatch p w jb = (Returns r, ev)"
    using assms(2) by (cases "dispatch p w jb") simp
  with assms(1) show ?thesis by (simp add: process_job_def)
qed

lemma process_job_fst_raises:
  "fst (dispatch p w jb) = Raises e \<Longrightarrow> fst (process_job p sl w od jb) = Raises e"
  by (cases "dispatch p w jb") (simp add: process_job_def)

lemma malformed_never_returns:
  assumes "malformed jb"
  shows "fst (process_job p sl w od jb) \<noteq> Returns ()"
proof
  assume "fst (process_job p sl w od jb) = Returns ()"
  from process_job_Returns [OF this] obtain r where
    out: "jb ''out'' \<noteq> None" and d: "fst (dispatch p w jb) = Returns r" by blast
  from dispatch_Returns_wellformed [OF d] obtain t where
    "jb ''type'' = Some (YStr t)" "jb ''query'' \<noteq> None"
    "lower t = ''web'' \<or> (lower t = ''file'' \<and> jb ''file_path'' \<noteq> None)"
    by blast
  with out assms show False by (auto simp: malformed_def)
qed


lemma ready_setup_returns:
  "fst (setup_file_search_vector_store 5 ready_world ''docs/my_document.pdf'') = Returns ''vs_1''"
  by (simp add: program_defs example_defs)

lemma no_out_job_dispatch:
  "fst (dispatch 5 ready_world no_out_job) =
     Returns \<lparr>r_query = YStr ''a penguin'', r_created = ''20250101_120000'',
              r_model = YStr ''gpt-4.1'', r_vector_store_id = None,
              r_output_text = ''answer'', r_output_structured = []\<rparr>"
  by (simp add: program_defs example_defs)

lemma connection_error_aborts_run:
  "run_jobs 5 (1 / 4) stash 0 [(web_job, connection_fails_world), (third_job, ready_world)] =
     \<lparr>attempts = [], job_failures = 0,
      calls = [ResponsesCreate (YStr ''latest emperor penguin population study'') (YStr ''gpt-4.1'') None],
      ending = Crashed (AttributeError ''status_code'')\<rparr>"
proof -
  have "process_job 5 (1 / 4) connection_fails_world stash web_job =
      (Raises (APIConnectionError ''Connection error.''),
       [ResponsesCreate (YStr ''latest emperor penguin population study'') (YStr ''gpt-4.1'') None])"
    by (simp add: program_defs example_defs)
  then show ?thesis by (simp add: example_headers)
qed

section \<open>The claims\<close>

text \<open>
  C3. For every sequence of retrieved file-membership statuses, the polling loop exits
  only on a terminal status. With the upload, the creation and the add-file call
  succeeding and every status check returning a status, \<^verbatim>\<open>setup_file_search_vector_store\<close>
  is decided by the first status that is \<open>completed\<close> or \<open>failed\<close>: it returns the
  vector store identifier when that status is \<open>completed\<close>, raises
  \<open>RuntimeError\<close> with \<open>File processing failed: \<close> followed by the remote message when
  it is \<open>failed\<close>, and has not come back when every status of the sequence is pending.
  It makes one status check for each pending status before the terminal one and one for
  the terminal one, and none after it. The raised message contains the remote message.
\<close>

theorem polling_exits_on_terminal_status:
  assumes "files_create w = Inr f" and "vector_stores_create w = Inr v"
    and "vector_stores_files_create w = None"
    and "vector_stores_files_retrieve w = map Inr ss"
  shows "fst (setup_file_search_vector_store p w path) =
           (case dropWhile pending ss of
              [] \<Rightarrow> Hangs
            | s # rest \<Rightarrow>
                if status s = ''completed'' then Returns v
                else Raises (RuntimeError (''File processing failed: '' @ error_message s)))
         \<and> length (filter is_retrieve (snd (setup_file_search_vector_store p w path))) =
             length (takeWhile pending ss) + (if dropWhile pending ss = [] then 0 else 1)
         \<and> (\<forall>s rest m. dropWhile pending ss = s # rest \<and> status s = ''failed''
                \<and> last_error s = Some m \<longrightarrow>
              (\<exists>msg. fst (setup_file_search_vector_store p w path) = Raises (RuntimeError msg)
                 \<and> sublist m msg))"
proof -
  let ?r = "setup_file_search_vector_store p w path"
  have eq: "?r =
     (case fst (poll_status p w v f (map Inr ss)) of
        Returns u \<Rightarrow> Returns v | Raises e \<Rightarrow> Raises e | Hangs \<Rightarrow> Hangs,
      [FilesCreate path, VectorStoresCreate, VectorStoresFilesCreate v f]
        @ snd (poll_status p w v f (map Inr ss)))"
    using setup_polls [OF assms(1,2,3), of p path] assms(4) by simp
  have one: "fst ?r =
           (case dropWhile pending ss of
              [] \<Rightarrow> Hangs
            | s # rest \<Rightarrow>
                if status s = ''completed'' then Returns v
                else Raises (RuntimeError (''File processing failed: '' @ error_message s)))"
    by (simp add: eq poll_statuses res_of_first_terminal)
  have two: "length (filter is_retrieve (snd ?r)) =
             length (takeWhile pending ss) + (if dropWhile pending ss = [] then 0 else 1)"
  proof -
    have "filter is_retrieve (snd ?r) =
        filter is_retrieve (concat (map (round_calls p v f) (map Inr (takeWhile pending ss))))
        @ filter is_retrieve
            (case dropWhile pending ss of
               [] \<Rightarrow> []
             | s # rest \<Rightarrow>
                 if status s = ''completed'' then [VectorStoresFilesRetrieve v f]
                 else VectorStoresFilesRetrieve v f # delete_both w v f)"
      by (simp add: eq poll_statuses)
    then show ?thesis
      by (simp only: length_append retrieves_rounds retrieves_tail length_map)
  qed
  have three: "\<exists>msg. fst ?r = Raises (RuntimeError msg) \<and> sublist m msg"
    if "dropWhile pending ss = s # rest" "status s = ''failed''" "last_error s = Some m"
    for s rest m
  proof -
    have "fst ?r = Raises (RuntimeError (''File processing failed: '' @ m))"
      using that by (simp add: one error_message_def)
    moreover have "sublist m (''File processing failed: '' @ m)"
      by (rule sublist_append_leftI)
    ultimately show ?thesis by blast
  qed
  from one two three show ?thesis by blast
qed

theorem polling_exits_on_terminal_status_witness:
  "fst (setup_file_search_vector_store 5 bad_format_world ''docs/my_document.pdf'') =
     Raises (RuntimeError ''File processing failed: bad format'')
   \<and> length (filter is_retrieve
        (snd (setup_file_search_vector_store 5 bad_format_world ''docs/my_document.pdf''))) = 2
   \<and> (\<exists>msg. fst (setup_file_search_vector_store 5 bad_format_world ''docs/my_document.pdf'') =
          Raises (RuntimeError msg) \<and> sublist ''bad format'' msg)"
proof -
  let ?ss = "[\<lparr>status = ''in_progress'', last_error = None\<rparr>,
              \<lparr>status = ''failed'', last_error = Some ''bad format''\<rparr>]"
  have h1: "files_create bad_format_world = Inr ''file-1''"
    and h2: "vector_stores_create bad_format_world = Inr ''vs_1''"
    and h3: "vector_stores_files_create bad_format_world = None"
    and h4: "vector_stores_files_retrieve bad_format_world = map Inr ?ss"
    by (simp_all add: bad_format_world_def ready_world_def)
  have d: "dropWhile pending ?ss = [\<lparr>status = ''failed'', last_error = Some ''bad format''\<rparr>]"
    and t: "takeWhile pending ?ss = [\<lparr>status = ''in_progress'', last_error = None\<rparr>]"
    by (simp_all add: pending_def)
  note inst = polling_exits_on_terminal_status [OF h1 h2 h3 h4, of 5 "''docs/my_document.pdf''"]
  from inst have a: "fst (setup_file_search_vector_store 5 bad_format_world ''docs/my_document.pdf'') =
     Raises (RuntimeError ''File processing failed: bad format'')"
    by (simp add: pending_def error_message_def)
  from inst have b: "length (filter is_retrieve
        (snd (setup_file_search_vector_store 5 bad_format_world ''docs/my_document.pdf''))) = 2"
    by (simp add: pending_def)
  from inst have third: "\<exists>msg. fst (setup_file_search_vector_store 5 bad_format_world ''docs/my_document.pdf'') =
          Raises (RuntimeError msg) \<and> sublist m msg"
    if "dropWhile pending ?ss = s # rest" "status s = ''failed''" "last_error s = Some m" for s rest m
    using that by blast
  have c: "\<exists>msg. fst (setup_file_search_vector_store 5 bad_format_world ''docs/my_document.pdf'') =
          Raises (RuntimeError msg) \<and> sublist ''bad format'' msg"
    by (rule third [OF d]) simp_all
  from a b c show ?thesis by blast
qed

text \<open>
  C7. In any round of the polling loop, after any number of rounds that went round again:
  an \<open>APIError\<close> raised by the status check is followed by \<^verbatim>\<open>smart_sleep\<close> of twice
  the poll interval and then by the rest of the loop, with no delete; any other exception
  is followed by the delete of the vector store and the delete of the file, whatever
  these deletes answer, and is the exception the loop raises. For a positive poll
  interval the sleep after an \<open>APIError\<close> is one sleep of twice the interval, which
  is longer than the interval slept after a pending status.
\<close>

theorem polling_error_handlers:
  assumes "list_all in_progress pre"
  shows "(is_APIError e \<longrightarrow>
            poll_status p w v f (pre @ Inl e # rs) =
              (fst (poll_status p w v f rs),
               concat (map (round_calls p v f) pre)
                 @ [VectorStoresFilesRetrieve v f] @ smart_sleep (p * 2)
                 @ snd (poll_status p w v f rs)))
         \<and> (\<not> is_APIError e \<longrightarrow>
            poll_status p w v f (pre @ Inl e # rs) =
              (Raises e,
               concat (map (round_calls p v f) pre)
                 @ [VectorStoresFilesRetrieve v f,
                    VectorStoresDelete v (vector_stores_delete w),
                    FilesDelete f (files_delete w)]))
         \<and> (0 < p \<longrightarrow> smart_sleep (p * 2) = [Sleep (2 * p)] \<and> smart_sleep p = [Sleep p] \<and> p < 2 * p)"
proof -
  have a: "poll_status p w v f (pre @ Inl e # rs) =
              (fst (poll_status p w v f rs),
               concat (map (round_calls p v f) pre)
                 @ [VectorStoresFilesRetrieve v f] @ smart_sleep (p * 2)
                 @ snd (poll_status p w v f rs))" if "is_APIError e"
  proof -
    from that have "in_progress (Inl e)" by (simp add: in_progress_def)
    from poll_status_round [OF this, of p w v f rs] poll_status_rounds [OF assms, of p w v f "Inl e # rs"]
    show ?thesis by (simp add: round_calls_def)
  qed
  have b: "poll_status p w v f (pre @ Inl e # rs) =
              (Raises e,
               concat (map (round_calls p v f) pre)
                 @ [VectorStoresFilesRetrieve v f,
                    VectorStoresDelete v (vector_stores_delete w),
                    FilesDelete f (files_delete w)])" if "\<not> is_APIError e"
    using poll_status_raised [OF that, of p w v f rs] poll_status_rounds [OF assms, of p w v f "Inl e # rs"]
    by (simp add: delete_both_def)
  have c: "smart_sleep (p * 2) = [Sleep (2 * p)] \<and> smart_sleep p = [Sleep p] \<and> p < 2 * p" if "0 < p"
    using that by (simp add: smart_sleep_def mult.commute)
  from a b c show ?thesis by blast
qed

theorem polling_error_handlers_witness:
  "poll_status 5 bad_format_world ''vs_1'' ''file-1''
     ([Inr \<lparr>status = ''in_progress'', last_error = None\<rparr>] @ Inl (APIError ''rate limit'')
        # [Inr \<lparr>status = ''completed'', last_error = None\<rparr>]) =
     (Returns (),
      [VectorStoresFilesRetrieve ''vs_1'' ''file-1'', Sleep 5,
       VectorStoresFilesRetrieve ''vs_1'' ''file-1'', Sleep 10,
       VectorStoresFilesRetrieve ''vs_1'' ''file-1''])
   \<and> poll_status 5 bad_format_world ''vs_1'' ''file-1''
     ([Inr \<lparr>status = ''in_progress'', last_error = None\<rparr>] @ Inl (OtherException ''boom'')
        # [Inr \<lparr>status = ''completed'', last_error = None\<rparr>]) =
     (Raises (OtherException ''boom''),
      [VectorStoresFilesRetrieve ''vs_1'' ''file-1'', Sleep 5,
       VectorStoresFilesRetrieve ''vs_1'' ''file-1'',
       VectorStoresDelete ''vs_1'' (Some (APIError ''not found'')),
       FilesDelete ''file-1'' (Some (OtherException ''connection reset''))])
   \<and> smart_sleep (5 * 2) = [Sleep 10] \<and> (5::real) < 2 * 5"
proof -
  have pre: "list_all in_progress [Inr \<lparr>status = ''in_progress'', last_error = None\<rparr>]"
    by (simp add: in_progress_def pending_def)
  have a: "is_APIError (APIError ''rate limit'')" and b: "\<not> is_APIError (OtherException ''boom'')"
    and c: "(0::real) < 5"
    by simp_all
  from polling_error_handlers [OF pre, of "APIError ''rate limit''" 5 bad_format_world "''vs_1''"
      "''file-1''" "[Inr \<lparr>status = ''completed'', last_error = None\<rparr>]"] a c
  have one: "poll_status 5 bad_format_world ''vs_1'' ''file-1''
     ([Inr \<lparr>status = ''in_progress'', last_error = None\<rparr>] @ Inl (APIError ''rate limit'')
        # [Inr \<lparr>status = ''completed'', last_error = None\<rparr>]) =
     (Returns (),
      [VectorStoresFilesRetrieve ''vs_1'' ''file-1'', Sleep 5,
       VectorStoresFilesRetrieve ''vs_1'' ''file-1'', Sleep 10,
       VectorStoresFilesRetrieve ''vs_1'' ''file-1''])"
    and three: "smart_sleep (5 * 2) = [Sleep 10] \<and> (5::real) < 2 * 5"
    by (simp_all add: round_calls_def smart_sleep_def poll_body_def)
  from polling_error_handlers [OF pre, of "OtherException ''boom''" 5 bad_format_world "''vs_1''"
      "''file-1''" "[Inr \<lparr>status = ''completed'', last_error = None\<rparr>]"] b
  have two: "poll_status 5 bad_format_world ''vs_1'' ''file-1''
     ([Inr \<lparr>status = ''in_progress'', last_error = None\<rparr>] @ Inl (OtherException ''boom'')
        # [Inr \<lparr>status = ''completed'', last_error = None\<rparr>]) =
     (Raises (OtherException ''boom''),
      [VectorStoresFilesRetrieve ''vs_1'' ''file-1'', Sleep 5,
       VectorStoresFilesRetrieve ''vs_1'' ''file-1'',
       VectorStoresDelete ''vs_1'' (Some (APIError ''not found'')),
       FilesDelete ''file-1'' (Some (OtherException ''connection reset''))])"
    by (simp add: round_calls_def smart_sleep_def bad_format_world_def ready_world_def)
  from one two three show ?thesis by blast
qed

text \<open>
  C10. When a status check returns \<open>failed\<close>, after any number of rounds that went round
  again, \<^verbatim>\<open>setup_file_search_vector_store\<close> deletes the vector store and then the
  file, whatever the two deletes answer, and raises the \<open>RuntimeError\<close> that carries
  the remote error message; these are its last calls. The calls of that round are the
  calls of a round whose status check raised an exception other than \<open>APIError\<close>.
\<close>

theorem failed_status_cleans_up:
  assumes "files_create w = Inr f" and "vector_stores_create w = Inr v"
    and "vector_stores_files_create w = None"
    and "vector_stores_files_retrieve w = pre @ Inr s # rs"
    and "list_all in_progress pre" and "status s = ''failed''"
  shows "setup_file_search_vector_store p w path =
           (Raises (RuntimeError (''File processing failed: '' @ error_message s)),
            [FilesCreate path, VectorStoresCreate, VectorStoresFilesCreate v f]
              @ concat (map (round_calls p v f) pre)
              @ [VectorStoresFilesRetrieve v f,
                 VectorStoresDelete v (vector_stores_delete w),
                 FilesDelete f (files_delete w)])
         \<and> (\<forall>e. \<not> is_APIError e \<longrightarrow>
               snd (poll_status p w v f (Inl e # rs)) = snd (poll_status p w v f (Inr s # rs)))"
proof -
  have "poll_status p w v f (pre @ Inr s # rs) =
      (Raises (RuntimeError (''File processing failed: '' @ error_message s)),
       concat (map (round_calls p v f) pre)
         @ [VectorStoresFilesRetrieve v f,
            VectorStoresDelete v (vector_stores_delete w),
            FilesDelete f (files_delete w)])"
    using poll_status_rounds [OF assms(5), of p w v f "Inr s # rs"]
      poll_status_failed [OF assms(6), of p w v f rs]
    by (simp add: delete_both_def)
  then have one: "setup_file_search_vector_store p w path =
           (Raises (RuntimeError (''File processing failed: '' @ error_message s)),
            [FilesCreate path, VectorStoresCreate, VectorStoresFilesCreate v f]
              @ concat (map (round_calls p v f) pre)
              @ [VectorStoresFilesRetrieve v f,
                 VectorStoresDelete v (vector_stores_delete w),
                 FilesDelete f (files_delete w)])"
    using setup_polls [OF assms(1,2,3), of p path] assms(4) by simp
  have two: "snd (poll_status p w v f (Inl e # rs)) = snd (poll_status p w v f (Inr s # rs))"
    if "\<not> is_APIError e" for e
    using poll_status_raised [OF that, of p w v f rs] poll_status_failed [OF assms(6), of p w v f rs]
    by simp
  from one two show ?thesis by blast
qed

theorem failed_status_cleans_up_witness:
  "setup_file_search_vector_store 5 bad_format_world ''docs/my_document.pdf'' =
     (Raises (RuntimeError ''File processing failed: bad format''),
      [FilesCreate ''docs/my_document.pdf'', VectorStoresCreate,
       VectorStoresFilesCreate ''vs_1'' ''file-1'',
       VectorStoresFilesRetrieve ''vs_1'' ''file-1'', Sleep 5,
       VectorStoresFilesRetrieve ''vs_1'' ''file-1'',
       VectorStoresDelete ''vs_1'' (Some (APIError ''not found'')),
       FilesDelete ''file-1'' (Some (OtherException ''connection reset''))])"
proof -
  have h1: "files_create bad_format_world = Inr ''file-1''"
    and h2: "vector_stores_create bad_format_world = Inr ''vs_1''"
    and h3: "vector_stores_files_create bad_format_world = None"
    and h4: "vector_stores_files_retrieve bad_format_world =
      [Inr \<lparr>status = ''in_progress'', last_error = None\<rparr>]
        @ Inr \<lparr>status = ''failed'', last_error = Some ''bad format''\<rparr> # []"
    and h5: "list_all in_progress [Inr \<lparr>status = ''in_progress'', last_error = None\<rparr>]"
    and h6: "status \<lparr>status = ''failed'', last_error = Some ''bad format''\<rparr> = ''failed''"
    by (simp_all add: bad_format_world_def ready_world_def in_progress_def pending_def)
  from failed_status_cleans_up [OF h1 h2 h3 h4 h5 h6, of 5 "''docs/my_document.pdf''"]
  show ?thesis
    by (simp add: round_calls_def smart_sleep_def error_message_def bad_format_world_def
        ready_world_def)
qed

text \<open>
  C2. A \<^verbatim>\<open>file\<close> job whose file is there, whose upload succeeds and whose vector
  store is created with a non-empty identifier \<open>v\<close> attempts the deletion of \<open>v\<close>
  exactly once, and of no other vector store, on every way the job can end: the
  add-file call fails, the polling raises, the status is \<open>failed\<close>, the query fails,
  the query is missing, the query succeeds (whatever happens to the write after it).
  A job that is still polling has not ended.
\<close>

theorem vector_store_deleted_exactly_once:
  assumes "jb ''type'' = Some (YStr t)" and "lower t = ''file''"
    and "jb ''file_path'' = Some (YStr fp)" and "expanduser w fp = Inr path"
    and "path_exists w path"
    and "files_create w = Inr f" and "vector_stores_create w = Inr v" and "v \<noteq> []"
    and "fst (process_job p sl w od jb) \<noteq> Hangs"
  shows "vs_deletes (snd (process_job p sl w od jb)) = [v]"
proof -
  from assms(9) have "fst (dispatch p w jb) \<noteq> Hangs"
    by (simp add: process_job_Hangs)
  from vs_deletes_dispatch_file [where jb = jb and p = p, OF assms(1-8) this]
  show ?thesis by (simp add: vs_deletes_process_job)
qed

theorem vector_store_deleted_exactly_once_witness:
  "vs_deletes (snd (process_job 5 (1 / 4) add_fails_world stash file_job)) = [''vs_1'']
   \<and> vs_deletes (snd (process_job 5 (1 / 4) check_raises_world stash file_job)) = [''vs_1'']
   \<and> vs_deletes (snd (process_job 5 (1 / 4) bad_format_world stash file_job)) = [''vs_1'']
   \<and> vs_deletes (snd (process_job 5 (1 / 4) query_fails_world stash file_job)) = [''vs_1'']
   \<and> vs_deletes (snd (process_job 5 (1 / 4) ready_world stash file_job)) = [''vs_1'']"
proof -
  have ty: "file_job ''type'' = Some (YStr ''file'')"
    and fp: "file_job ''file_path'' = Some (YStr ''docs/my_document.pdf'')"
    by (simp_all add: file_job_def)
  have ne: "''vs_1'' \<noteq> []" by simp
  have w: "expanduser w ''docs/my_document.pdf'' = Inr ''docs/my_document.pdf''
      \<and> path_exists w ''docs/my_document.pdf'' \<and> files_create w = Inr ''file-1''
      \<and> vector_stores_create w = Inr ''vs_1''"
    if "w \<in> {add_fails_world, check_raises_world, bad_format_world, query_fails_world, ready_world}"
    for w
    using that by (auto simp: example_defs)
  have h: "fst (process_job 5 (1 / 4) add_fails_world stash file_job) \<noteq> Hangs"
    "fst (process_job 5 (1 / 4) check_raises_world stash file_job) \<noteq> Hangs"
    "fst (process_job 5 (1 / 4) bad_format_world stash file_job) \<noteq> Hangs"
    "fst (process_job 5 (1 / 4) query_fails_world stash file_job) \<noteq> Hangs"
    "fst (process_job 5 (1 / 4) ready_world stash file_job) \<noteq> Hangs"
    by (simp_all add: file_job_add_fails file_job_check_raises file_job_processing_fails
        file_job_query_fails file_job_succeeds)
  note once = vector_store_deleted_exactly_once [where jb = file_job and p = 5 and sl = "1 / 4"
      and od = stash and path = "''docs/my_document.pdf''" and f = "''file-1''" and v = "''vs_1''",
      OF ty lower_file fp _ _ _ _ ne]
  have "vs_deletes (snd (process_job 5 (1 / 4) add_fails_world stash file_job)) = [''vs_1'']"
    using w [of add_fails_world] h(1) by (intro once) simp_all
  moreover have "vs_deletes (snd (process_job 5 (1 / 4) check_raises_world stash file_job)) = [''vs_1'']"
    using w [of check_raises_world] h(2) by (intro once) simp_all
  moreover have "vs_deletes (snd (process_job 5 (1 / 4) bad_format_world stash file_job)) = [''vs_1'']"
    using w [of bad_format_world] h(3) by (intro once) simp_all
  moreover have "vs_deletes (snd (process_job 5 (1 / 4) query_fails_world stash file_job)) = [''vs_1'']"
    using w [of query_fails_world] h(4) by (intro once) simp_all
  moreover have "vs_deletes (snd (process_job 5 (1 / 4) ready_world stash file_job)) = [''vs_1'']"
    using w [of ready_world] h(5) by (intro once) simp_all
  ultimately show ?thesis by blast
qed

text \<open>
  C8. A \<^verbatim>\<open>file\<close> job whose \<^verbatim>\<open>file_path\<close> names a path that does not exist makes no
  call at all, remote or local: \<^verbatim>\<open>process_job\<close> raises \<open>FileNotFoundError\<close> with an
  empty trace. The job loop records the failure in the class \<open>InputFileNotFound\<close>
  (the handler that prints \<open>Input file not found\<close>), counts it, and runs the jobs after
  it as it would have run them.
\<close>

theorem missing_file_no_remote_calls:
  assumes "jb ''type'' = Some (YStr t)" and "lower t = ''file''"
    and "jb ''file_path'' = Some (YStr fp)" and "expanduser w fp = Inr path"
    and "\<not> path_exists w path"
  shows "process_job p sl w od jb =
           (Raises (FileNotFoundError (''File not found at path: '' @ path)), [])
         \<and> run_jobs p sl od n ((jb, w) # rest) =
           logged_failure InputFileNotFound
             (FileNotFoundError (''File not found at path: '' @ path)) []
             (run_jobs p sl od (n + 1) rest)"
proof -
  have pj: "process_job p sl w od jb =
           (Raises (FileNotFoundError (''File not found at path: '' @ path)), [])"
    by (rule process_job_raises) (rule dispatch_missing_file [OF assms])
  from run_jobs_raises [OF print_header_string [where jb = jb, OF assms(1)] pj, of n rest] pj
  show ?thesis by simp
qed

theorem missing_file_no_remote_calls_witness:
  "process_job 5 (1 / 4) ready_world stash missing_file_job =
     (Raises (FileNotFoundError ''File not found at path: docs/absent.pdf''), [])
   \<and> run_jobs 5 (1 / 4) stash 0 [(missing_file_job, ready_world), (web_job, ready_world)] =
     \<lparr>attempts = [Failed InputFileNotFound (FileNotFoundError ''File not found at path: docs/absent.pdf''),
                 Succeeded],
      job_failures = 1,
      calls = [ResponsesCreate (YStr ''latest emperor penguin population study'') (YStr ''gpt-4.1'') None,
               WriteText \<lparr>anchor = [], parts = [''stash'', ''20250101_120000'', ''penguin_pop.json'']\<rparr>
                 \<lparr>r_query = YStr ''latest emperor penguin population study'',
                  r_created = ''20250101_120000'', r_model = YStr ''gpt-4.1'',
                  r_vector_store_id = None, r_output_text = ''answer'', r_output_structured = []\<rparr>,
               Sleep (1 / 4)],
      ending = Completed\<rparr>"
proof -
  have h1: "missing_file_job ''type'' = Some (YStr ''file'')"
    and h3: "missing_file_job ''file_path'' = Some (YStr ''docs/absent.pdf'')"
    and h4: "expanduser ready_world ''docs/absent.pdf'' = Inr ''docs/absent.pdf''"
    and h5: "\<not> path_exists ready_world ''docs/absent.pdf''"
    by (simp_all add: missing_file_job_def ready_world_def)
  have rest: "run_jobs 5 (1 / 4) stash (0 + 1) [(web_job, ready_world)] =
     \<lparr>attempts = [Succeeded],
      job_failures = 1,
      calls = [ResponsesCreate (YStr ''latest emperor penguin population study'') (YStr ''gpt-4.1'') None,
               WriteText \<lparr>anchor = [], parts = [''stash'', ''20250101_120000'', ''penguin_pop.json'']\<rparr>
                 \<lparr>r_query = YStr ''latest emperor penguin population study'',
                  r_created = ''20250101_120000'', r_model = YStr ''gpt-4.1'',
                  r_vector_store_id = None, r_output_text = ''answer'', r_output_structured = []\<rparr>,
               Sleep (1 / 4)],
      ending = Completed\<rparr>"
    by (simp add: program_defs example_defs print_header_def)
  from missing_file_no_remote_calls [where jb = missing_file_job and p = 5 and sl = "1 / 4"
      and od = stash and n = 0 and rest = "[(web_job, ready_world)]", OF h1 lower_file h3 h4 h5]
  have a: "process_job 5 (1 / 4) ready_world stash missing_file_job =
      (Raises (FileNotFoundError (''File not found at path: '' @ ''docs/absent.pdf'')), [])"
    and b: "run_jobs 5 (1 / 4) stash 0 [(missing_file_job, ready_world), (web_job, ready_world)] =
      logged_failure InputFileNotFound
        (FileNotFoundError (''File not found at path: '' @ ''docs/absent.pdf'')) []
        (run_jobs 5 (1 / 4) stash (0 + 1) [(web_job, ready_world)])"
    by blast+
  show ?thesis
    unfolding a b rest by (simp add: logged_failure_def)
qed

text \<open>
  C1. The claim asks for the teardown of the uploaded file before a \<^verbatim>\<open>file\<close> job
  returns, on the success path too. The program does not do it: when the upload, the
  vector store, the processing and the query all succeed, the job deletes the vector
  store and returns, and no call deletes the uploaded file \<open>file-1\<close>; the same when the
  query fails. (The error paths inside \<^verbatim>\<open>setup_file_search_vector_store\<close> do delete
  the file.)
\<close>

theorem uploaded_file_kept_after_query:
  "process_job 5 (1 / 4) ready_world stash file_job =
     (Returns (),
      [FilesCreate ''docs/my_document.pdf'', VectorStoresCreate,
       VectorStoresFilesCreate ''vs_1'' ''file-1'',
       VectorStoresFilesRetrieve ''vs_1'' ''file-1'', Sleep 5,
       VectorStoresFilesRetrieve ''vs_1'' ''file-1'',
       ResponsesCreate (YStr ''Summarize the document.'') (YStr ''gpt-4o-mini'') (Some ''vs_1''),
       VectorStoresDelete ''vs_1'' None,
       WriteText \<lparr>anchor = [], parts = [''stash'', ''20250101_120000'', ''my_document_summary.json'']\<rparr>
         \<lparr>r_query = YStr ''Summarize the document.'', r_created = ''20250101_120000'',
          r_model = YStr ''gpt-4o-mini'', r_vector_store_id = Some ''vs_1'',
          r_output_text = ''answer'', r_output_structured = []\<rparr>,
       Sleep (1 / 4)])
   \<and> files_deletes (snd (process_job 5 (1 / 4) ready_world stash file_job)) = []
   \<and> fst (process_job 5 (1 / 4) query_fails_world stash file_job) = Raises (APIError ''server error'')
   \<and> files_deletes (snd (process_job 5 (1 / 4) query_fails_world stash file_job)) = []"
  by (simp add: file_job_succeeds file_job_query_fails)

text \<open>
  C4. The claim asks that an exception raised while one job is processed never keeps
  the job loop from the jobs after it. The loop does catch every exception of
  \<^verbatim>\<open>process_job\<close>, but the line it prints before the \<^verbatim>\<open>try\<close> calls
  \<^verbatim>\<open>.upper()\<close> on the job's \<^verbatim>\<open>type\<close>: for a job whose \<^verbatim>\<open>type\<close> is the number 5
  that line raises \<open>AttributeError\<close> outside every handler, the run ends there, the job
  after it is never attempted, and no failure count is reported.
\<close>

theorem header_crash_aborts_run:
  "run_jobs 5 (1 / 4) stash 0 [(numeric_type_job, ready_world), (web_job, ready_world)] =
     \<lparr>attempts = [], job_failures = 0, calls = [], ending = Crashed (AttributeError ''upper'')\<rparr>
   \<and> cli (example_invocation [(numeric_type_job, ready_world), (web_job, ready_world)]) =
     (Some \<lparr>attempts = [], job_failures = 0, calls = [], ending = Crashed (AttributeError ''upper'')\<rparr>,
      None, ExitStatus 1)"
proof -
  have r: "run_jobs 5 (1 / 4) stash 0 [(numeric_type_job, ready_world), (web_job, ready_world)] =
     \<lparr>attempts = [], job_failures = 0, calls = [], ending = Crashed (AttributeError ''upper'')\<rparr>"
    by (simp add: example_headers)
  have "api_key_set (example_invocation [(numeric_type_job, ready_world), (web_job, ready_world)])"
    and "jobs_file (example_invocation [(numeric_type_job, ready_world), (web_job, ready_world)]) =
        Inr [(numeric_type_job, ready_world), (web_job, ready_world)]"
    and "poll_interval (example_invocation [(numeric_type_job, ready_world), (web_job, ready_world)]) = 5"
    and "sleep_arg (example_invocation [(numeric_type_job, ready_world), (web_job, ready_world)]) = 1 / 4"
    by (simp_all add: example_invocation_def)
  with cli_runs [of "example_invocation [(numeric_type_job, ready_world), (web_job, ready_world)]"
      "[(numeric_type_job, ready_world), (web_job, ready_world)]"] r
  show ?thesis by (simp add: outdir_of_example)
qed

text \<open>
  C9, as amended. Within a run each job writes at most one file, the one its
  \<^verbatim>\<open>outdir / job["out"]\<close> names, and the run writes nothing else. When the targets
  \<^verbatim>\<open>outdir / job["out"]\<close> of the jobs of a run name pairwise different files, the
  writes of the run go to different files, and every record written during the run is
  still in its file when the run ends. Nothing keeps two jobs of a run from naming the
  same file.
\<close>

theorem records_kept_when_files_differ:
  assumes "distinct (map fs (targets od jobs))"
  shows "distinct (map fs (write_paths (calls (run_jobs p sl od n jobs))))
         \<and> set (write_paths (calls (run_jobs p sl od n jobs))) \<subseteq> set (targets od jobs)
         \<and> (\<forall>pth r. WriteText pth r \<in> set (calls (run_jobs p sl od n jobs)) \<longrightarrow>
               written fs pth (calls (run_jobs p sl od n jobs)) = Some r)"
proof -
  from run_jobs_writes [of p sl od n jobs fs] assms
  have d: "distinct (map fs (write_paths (calls (run_jobs p sl od n jobs))))"
    and s: "set (write_paths (calls (run_jobs p sl od n jobs))) \<subseteq> set (targets od jobs)"
    by simp_all
  have k: "written fs pth (calls (run_jobs p sl od n jobs)) = Some r"
    if "WriteText pth r \<in> set (calls (run_jobs p sl od n jobs))" for pth r
    by (rule written_kept [OF d that])
  from d s k show ?thesis by blast
qed


theorem records_kept_when_files_differ_witness:
  "distinct (map posix_file (write_paths (calls (run_jobs 5 (1 / 4) stash 0
      [(web_job, ready_world), (third_job, ready_world)]))))
   \<and> written posix_file
       \<lparr>anchor = [], parts = [''stash'', ''20250101_120000'', ''penguin_pop.json'']\<rparr>
       (calls (run_jobs 5 (1 / 4) stash 0 [(web_job, ready_world), (third_job, ready_world)])) =
     Some \<lparr>r_query = YStr ''latest emperor penguin population study'',
           r_created = ''20250101_120000'', r_model = YStr ''gpt-4.1'',
           r_vector_store_id = None, r_output_text = ''answer'', r_output_structured = []\<rparr>"
proof -
  let ?jobs = "[(web_job, ready_world), (third_job, ready_world)]"
  have h: "distinct (map posix_file (targets stash ?jobs))"
    by (simp add: example_targets posix_file_examples)
  note inst = records_kept_when_files_differ [OF h, of 5 "1 / 4" 0]
  from inst have d: "distinct (map posix_file (write_paths (calls (run_jobs 5 (1 / 4) stash 0 ?jobs))))"
    by blast
  from inst have k: "written posix_file pth (calls (run_jobs 5 (1 / 4) stash 0 ?jobs)) = Some r"
    if "WriteText pth r \<in> set (calls (run_jobs 5 (1 / 4) stash 0 ?jobs))" for pth r
    using that by blast
  have "written posix_file
       \<lparr>anchor = [], parts = [''stash'', ''20250101_120000'', ''penguin_pop.json'']\<rparr>
       (calls (run_jobs 5 (1 / 4) stash 0 ?jobs)) =
     Some \<lparr>r_query = YStr ''latest emperor penguin population study'',
           r_created = ''20250101_120000'', r_model = YStr ''gpt-4.1'',
           r_vector_store_id = None, r_output_text = ''answer'', r_output_structured = []\<rparr>"
    by (rule k) (unfold web_then_third_run, simp)
  with d show ?thesis by blast
qed

text \<open>
  C9, as stated, fails: two different jobs of one run with the same \<^verbatim>\<open>out\<close> write
  the same path, and the file holds the record of the second job when the run ends. The
  same happens to two jobs whose \<^verbatim>\<open>out\<close> values differ and name one file,
  \<open>penguin_pop.json\<close> and \<open>sub/../penguin_pop.json\<close>.
\<close>

theorem same_out_is_overwritten:
  "write_paths (calls (run_jobs 5 (1 / 4) stash 0
      [(web_job, ready_world), (other_web_job, ready_world)])) =
     [\<lparr>anchor = [], parts = [''stash'', ''20250101_120000'', ''penguin_pop.json'']\<rparr>,
      \<lparr>anchor = [], parts = [''stash'', ''20250101_120000'', ''penguin_pop.json'']\<rparr>]
   \<and> \<not> distinct (write_paths (calls (run_jobs 5 (1 / 4) stash 0
      [(web_job, ready_world), (other_web_job, ready_world)])))
   \<and> web_job ''query'' \<noteq> other_web_job ''query''
   \<and> written posix_file
       \<lparr>anchor = [], parts = [''stash'', ''20250101_120000'', ''penguin_pop.json'']\<rparr>
       (calls (run_jobs 5 (1 / 4) stash 0
          [(web_job, ready_world), (other_web_job, ready_world)])) =
     Some \<lparr>r_query = YStr ''tardigrade habitats'',
           r_created = ''20250101_120000'', r_model = YStr ''gpt-4.1'',
           r_vector_store_id = None, r_output_text = ''answer'', r_output_structured = []\<rparr>
   \<and> web_job ''out'' \<noteq> dotdot_job ''out''
   \<and> written posix_file
       \<lparr>anchor = [], parts = [''stash'', ''20250101_120000'', ''penguin_pop.json'']\<rparr>
       (calls (run_jobs 5 (1 / 4) stash 0
          [(web_job, ready_world), (dotdot_job, ready_world)])) =
     Some \<lparr>r_query = YStr ''tardigrade habitats'',
           r_created = ''20250101_120000'', r_model = YStr ''gpt-4.1'',
           r_vector_store_id = None, r_output_text = ''answer'', r_output_structured = []\<rparr>"
proof -
  have q: "web_job ''query'' \<noteq> other_web_job ''query''" "web_job ''out'' \<noteq> dotdot_job ''out''"
    by (simp_all add: web_job_def other_web_job_def dotdot_job_def)
  show ?thesis
    unfolding two_web_jobs_run web_then_dotdot_run using q
    by (simp add: posix_file_examples)
qed

text \<open>
  C5, as amended. A job whose \<^verbatim>\<open>type\<close> is absent or a string, and that lacks a
  required field (\<^verbatim>\<open>type\<close>, \<^verbatim>\<open>query\<close>, \<^verbatim>\<open>out\<close>, or the
  \<^verbatim>\<open>file_path\<close> of a \<^verbatim>\<open>file\<close> job) or names an unknown type, never succeeds.
  Whenever its \<^verbatim>\<open>process_job\<close> raises an exception whose handler prints it, the
  failure is recorded in the class of that exception and counted once, and the jobs
  after it run as they would have run. The exception of an unknown type and of a missing
  \<^verbatim>\<open>file_path\<close> is a \<open>ValueError\<close>, recorded as a configuration error; the
  exception of a missing \<^verbatim>\<open>type\<close>, of a missing \<^verbatim>\<open>query\<close> (for a \<^verbatim>\<open>file\<close>
  job, once the vector store is ready) and of a missing \<^verbatim>\<open>out\<close> (once the query has
  returned) is a \<open>KeyError\<close>, recorded as an unexpected error.
\<close>

theorem malformed_job_fails_alone:
  assumes "print_header jb = None" and "malformed jb"
  shows "fst (process_job p sl w od jb) \<noteq> Returns ()
         \<and> (\<forall>e ev. process_job p sl w od jb = (Raises e, ev) \<and> handler_raises e = None \<longrightarrow>
              run_jobs p sl od n ((jb, w) # rest) =
                logged_failure (classify e) e ev (run_jobs p sl od (n + 1) rest))
         \<and> classify (ValueError m) = ConfigurationError
         \<and> classify (KeyError k) = UnexpectedError
         \<and> (\<forall>t. jb ''type'' = Some (YStr t) \<and> lower t \<noteq> ''web'' \<and> lower t \<noteq> ''file'' \<longrightarrow>
              process_job p sl w od jb =
                (Raises (ValueError (''Unknown job type: '' @ lower t)), []))
         \<and> (\<forall>t. jb ''type'' = Some (YStr t) \<and> lower t = ''file'' \<and> jb ''file_path'' = None \<longrightarrow>
              process_job p sl w od jb =
                (Raises (ValueError (''Job type '' @ quote @ ''file'' @ quote @ '' requires ''
                           @ quote @ ''file_path'' @ quote @ '' for this script.'')), []))
         \<and> (jb ''type'' = None \<longrightarrow>
              process_job p sl w od jb = (Raises (KeyError ''type''), []))
         \<and> (\<forall>t. jb ''type'' = Some (YStr t) \<and> lower t = ''web'' \<and> jb ''query'' = None \<longrightarrow>
              process_job p sl w od jb = (Raises (KeyError ''query''), []))
         \<and> (\<forall>t fp path v. jb ''type'' = Some (YStr t) \<and> lower t = ''file''
                \<and> jb ''query'' = None \<and> jb ''file_path'' = Some (YStr fp)
                \<and> expanduser w fp = Inr path \<and> path_exists w path
                \<and> fst (setup_file_search_vector_store p w path) = Returns v \<longrightarrow>
              fst (process_job p sl w od jb) = Raises (KeyError ''query''))
         \<and> (\<forall>r. jb ''out'' = None \<and> fst (dispatch p w jb) = Returns r \<longrightarrow>
              fst (process_job p sl w od jb) = Raises (KeyError ''out''))"
proof -
  have c1: "fst (process_job p sl w od jb) \<noteq> Returns ()"
    by (rule malformed_never_returns [OF assms(2)])
  have c2: "run_jobs p sl od n ((jb, w) # rest) =
      logged_failure (classify e) e ev (run_jobs p sl od (n + 1) rest)"
    if "process_job p sl w od jb = (Raises e, ev)" "handler_raises e = None" for e ev
    by (rule run_jobs_raises [OF assms(1) that])
  have c3: "classify (ValueError m) = ConfigurationError"
    and c4: "classify (KeyError k) = UnexpectedError"
    by simp_all
  have c5: "process_job p sl w od jb =
      (Raises (ValueError (''Unknown job type: '' @ lower t)), [])"
    if "jb ''type'' = Some (YStr t)" "lower t \<noteq> ''web''" "lower t \<noteq> ''file''" for t
    by (rule process_job_raises) (rule dispatch_unknown_type [where jb = jb, OF that])
  have c6: "process_job p sl w od jb =
      (Raises (ValueError (''Job type '' @ quote @ ''file'' @ quote @ '' requires ''
                 @ quote @ ''file_path'' @ quote @ '' for this script.'')), [])"
    if "jb ''type'' = Some (YStr t)" "lower t = ''file''" "jb ''file_path'' = None" for t
    by (rule process_job_raises) (rule dispatch_file_no_path [where jb = jb, OF that])
  have c7: "process_job p sl w od jb = (Raises (KeyError ''type''), [])"
    if "jb ''type'' = None"
    by (rule process_job_raises) (rule dispatch_no_type [where jb = jb, OF that])
  have c8: "process_job p sl w od jb = (Raises (KeyError ''query''), [])"
    if "jb ''type'' = Some (YStr t)" "lower t = ''web''" "jb ''query'' = None" for t
    by (rule process_job_raises) (rule dispatch_web_no_query [where jb = jb, OF that])
  have c9: "fst (process_job p sl w od jb) = Raises (KeyError ''query'')"
    if "jb ''type'' = Some (YStr t)" "lower t = ''file''" "jb ''query'' = None"
      "jb ''file_path'' = Some (YStr fp)" "expanduser w fp = Inr path" "path_exists w path"
      "fst (setup_file_search_vector_store p w path) = Returns v" for t fp path v
    by (rule process_job_fst_raises) (rule file_job_reaches_query [where jb = jb, OF that])
  have c10: "fst (process_job p sl w od jb) = Raises (KeyError ''out'')"
    if "jb ''out'' = None" "fst (dispatch p w jb) = Returns r" for r
    by (rule process_job_no_out [where jb = jb, OF that])
  show ?thesis
    by (intro conjI allI impI; (elim conjE)?) (rule c1 c2 c3 c4 c5 c6 c7 c8 c9 c10; assumption)+
qed

theorem malformed_job_fails_alone_witness:
  "run_jobs 5 (1 / 4) stash 0 [(no_query_job, ready_world), (third_job, ready_world)] =
     \<lparr>attempts = [Failed UnexpectedError (KeyError ''query''), Succeeded],
      job_failures = 1,
      calls = [ResponsesCreate (YStr ''tardigrade habitats'') (YStr ''gpt-4.1'') None,
               WriteText \<lparr>anchor = [], parts = [''stash'', ''20250101_120000'', ''third.json'']\<rparr>
                 \<lparr>r_query = YStr ''tardigrade habitats'',
                  r_created = ''20250101_120000'', r_model = YStr ''gpt-4.1'',
                  r_vector_store_id = None, r_output_text = ''answer'', r_output_structured = []\<rparr>,
               Sleep (1 / 4)],
      ending = Completed\<rparr>
   \<and> run_jobs 5 (1 / 4) stash 0 [(unknown_type_job, ready_world), (third_job, ready_world)] =
     \<lparr>attempts = [Failed ConfigurationError (ValueError ''Unknown job type: image''), Succeeded],
      job_failures = 1,
      calls = [ResponsesCreate (YStr ''tardigrade habitats'') (YStr ''gpt-4.1'') None,
               WriteText \<lparr>anchor = [], parts = [''stash'', ''20250101_120000'', ''third.json'']\<rparr>
                 \<lparr>r_query = YStr ''tardigrade habitats'',
                  r_created = ''20250101_120000'', r_model = YStr ''gpt-4.1'',
                  r_vector_store_id = None, r_output_text = ''answer'', r_output_structured = []\<rparr>,
               Sleep (1 / 4)],
      ending = Completed\<rparr>
   \<and> run_jobs 5 (1 / 4) stash 0 [(no_path_job, ready_world), (third_job, ready_world)] =
     \<lparr>attempts = [Failed ConfigurationError (ValueError (''Job type '' @ quote @ ''file'' @ quote @ '' requires '' @ quote
            @ ''file_path'' @ quote @ '' for this script.'')), Succeeded],
      job_failures = 1,
      calls = [ResponsesCreate (YStr ''tardigrade habitats'') (YStr ''gpt-4.1'') None,
               WriteText \<lparr>anchor = [], parts = [''stash'', ''20250101_120000'', ''third.json'']\<rparr>
                 \<lparr>r_query = YStr ''tardigrade habitats'',
                  r_created = ''20250101_120000'', r_model = YStr ''gpt-4.1'',
                  r_vector_store_id = None, r_output_text = ''answer'', r_output_structured = []\<rparr>,
               Sleep (1 / 4)],
      ending = Completed\<rparr>
   \<and> run_jobs 5 (1 / 4) stash 0 [(no_type_job, ready_world), (third_job, ready_world)] =
     \<lparr>attempts = [Failed UnexpectedError (KeyError ''type''), Succeeded],
      job_failures = 1,
      calls = [ResponsesCreate (YStr ''tardigrade habitats'') (YStr ''gpt-4.1'') None,
               WriteText \<lparr>anchor = [], parts = [''stash'', ''20250101_120000'', ''third.json'']\<rparr>
                 \<lparr>r_query = YStr ''tardigrade habitats'',
                  r_created = ''20250101_120000'', r_model = YStr ''gpt-4.1'',
                  r_vector_store_id = None, r_output_text = ''answer'', r_output_structured = []\<rparr>,
               Sleep (1 / 4)],
      ending = Completed\<rparr>
   \<and> fst (process_job 5 (1 / 4) ready_world stash file_no_query_job) = Raises (KeyError ''query'')
   \<and> fst (process_job 5 (1 / 4) ready_world stash no_out_job) = Raises (KeyError ''out'')
   \<and> fst (process_job 5 (1 / 4) ready_world stash no_query_job) \<noteq> Returns ()"
proof -
  have nq_hdr: "print_header no_query_job = None" and nq_mal: "malformed no_query_job"
    by (simp_all add: print_header_def malformed_def no_query_job_def lower_def lower_char_def)
  note nq = malformed_job_fails_alone [where jb = no_query_job and p = 5 and sl = "1 / 4"
      and w = ready_world and od = stash and n = 0 and rest = "[(third_job, ready_world)]",
      OF nq_hdr nq_mal]
  have a_ty: "no_query_job ''type'' = Some (YStr ''web'')" and a_q: "no_query_job ''query'' = None"
    by (simp_all add: no_query_job_def)
  from nq a_ty a_q lower_web
  have nq_pj: "process_job 5 (1 / 4) ready_world stash no_query_job = (Raises (KeyError ''query''), [])"
    by blast
  from nq have nq_step: "run_jobs 5 (1 / 4) stash 0 [(no_query_job, ready_world), (third_job, ready_world)] =
      logged_failure (classify e) e ev (run_jobs 5 (1 / 4) stash (0 + 1) [(third_job, ready_world)])"
    if "process_job 5 (1 / 4) ready_world stash no_query_job = (Raises e, ev)" "handler_raises e = None"
    for e ev
    using that by blast
  have "run_jobs 5 (1 / 4) stash 0 [(no_query_job, ready_world), (third_job, ready_world)] =
      logged_failure (classify (KeyError ''query'')) (KeyError ''query'') []
        (run_jobs 5 (1 / 4) stash (0 + 1) [(third_job, ready_world)])"
    by (rule nq_step [OF nq_pj]) simp
  then have a: "run_jobs 5 (1 / 4) stash 0 [(no_query_job, ready_world), (third_job, ready_world)] =
     \<lparr>attempts = [Failed UnexpectedError (KeyError ''query''), Succeeded],
      job_failures = 1,
      calls = [ResponsesCreate (YStr ''tardigrade habitats'') (YStr ''gpt-4.1'') None,
               WriteText \<lparr>anchor = [], parts = [''stash'', ''20250101_120000'', ''third.json'']\<rparr>
                 \<lparr>r_query = YStr ''tardigrade habitats'',
                  r_created = ''20250101_120000'', r_model = YStr ''gpt-4.1'',
                  r_vector_store_id = None, r_output_text = ''answer'', r_output_structured = []\<rparr>,
               Sleep (1 / 4)],
      ending = Completed\<rparr>"
    unfolding third_job_alone by (simp add: logged_failure_def)
  have ut_hdr: "print_header unknown_type_job = None" and ut_mal: "malformed unknown_type_job"
    by (simp_all add: print_header_def malformed_def unknown_type_job_def lower_def lower_char_def)
  note ut = malformed_job_fails_alone [where jb = unknown_type_job and p = 5 and sl = "1 / 4"
      and w = ready_world and od = stash and n = 0 and rest = "[(third_job, ready_world)]",
      OF ut_hdr ut_mal]
  have b_ty: "unknown_type_job ''type'' = Some (YStr ''image'')"
    by (simp add: unknown_type_job_def)
  have b_l: "lower ''image'' \<noteq> ''web''" "lower ''image'' \<noteq> ''file''"
    by (simp_all add: lower_image)
  from ut b_ty b_l
  have "process_job 5 (1 / 4) ready_world stash unknown_type_job =
      (Raises (ValueError (''Unknown job type: '' @ lower ''image'')), [])"
    by blast
  then have ut_pj: "process_job 5 (1 / 4) ready_world stash unknown_type_job =
      (Raises (ValueError ''Unknown job type: image''), [])"
    by (simp add: lower_image)
  from ut have ut_step: "run_jobs 5 (1 / 4) stash 0 [(unknown_type_job, ready_world), (third_job, ready_world)] =
      logged_failure (classify e) e ev (run_jobs 5 (1 / 4) stash (0 + 1) [(third_job, ready_world)])"
    if "process_job 5 (1 / 4) ready_world stash unknown_type_job = (Raises e, ev)" "handler_raises e = None"
    for e ev
    using that by blast
  have "run_jobs 5 (1 / 4) stash 0 [(unknown_type_job, ready_world), (third_job, ready_world)] =
      logged_failure (classify (ValueError ''Unknown job type: image'')) (ValueError ''Unknown job type: image'') []
        (run_jobs 5 (1 / 4) stash (0 + 1) [(third_job, ready_world)])"
    by (rule ut_step [OF ut_pj]) simp
  then have b: "run_jobs 5 (1 / 4) stash 0 [(unknown_type_job, ready_world), (third_job, ready_world)] =
     \<lparr>attempts = [Failed ConfigurationError (ValueError ''Unknown job type: image''), Succeeded],
      job_failures = 1,
      calls = [ResponsesCreate (YStr ''tardigrade habitats'') (YStr ''gpt-4.1'') None,
               WriteText \<lparr>anchor = [], parts = [''stash'', ''20250101_120000'', ''third.json'']\<rparr>
                 \<lparr>r_query = YStr ''tardigrade habitats'',
                  r_created = ''20250101_120000'', r_model = YStr ''gpt-4.1'',
                  r_vector_store_id = None, r_output_text = ''answer'', r_output_structured = []\<rparr>,
               Sleep (1 / 4)],
      ending = Completed\<rparr>"
    unfolding third_job_alone by (simp add: logged_failure_def)
  have np_hdr: "print_header no_path_job = None" and np_mal: "malformed no_path_job"
    by (simp_all add: print_header_def malformed_def no_path_job_def lower_def lower_char_def)
  note np = malformed_job_fails_alone [where jb = no_path_job and p = 5 and sl = "1 / 4"
      and w = ready_world and od = stash and n = 0 and rest = "[(third_job, ready_world)]",
      OF np_hdr np_mal]
  have c_ty: "no_path_job ''type'' = Some (YStr ''File'')" and c_fp: "no_path_job ''file_path'' = None"
    by (simp_all add: no_path_job_def)
  from np c_ty c_fp lower_File
  have np_pj: "process_job 5 (1 / 4) ready_world stash no_path_job =
      (Raises (ValueError (''Job type '' @ quote @ ''file'' @ quote @ '' requires '' @ quote
            @ ''file_path'' @ quote @ '' for this script.'')), [])"
    by blast
  from np have np_step: "run_jobs 5 (1 / 4) stash 0 [(no_path_job, ready_world), (third_job, ready_world)] =
      logged_failure (classify e) e ev (run_jobs 5 (1 / 4) stash (0 + 1) [(third_job, ready_world)])"
    if "process_job 5 (1 / 4) ready_world stash no_path_job = (Raises e, ev)" "handler_raises e = None"
    for e ev
    using that by blast
  have "run_jobs 5 (1 / 4) stash 0 [(no_path_job, ready_world), (third_job, ready_world)] =
      logged_failure (classify (ValueError (''Job type '' @ quote @ ''file'' @ quote @ '' requires '' @ quote
            @ ''file_path'' @ quote @ '' for this script.''))) (ValueError (''Job type '' @ quote @ ''file'' @ quote @ '' requires '' @ quote
            @ ''file_path'' @ quote @ '' for this script.'')) []
        (run_jobs 5 (1 / 4) stash (0 + 1) [(third_job, ready_world)])"
    by (rule np_step [OF np_pj]) simp
  then have c: "run_jobs 5 (1 / 4) stash 0 [(no_path_job, ready_world), (third_job, ready_world)] =
     \<lparr>attempts = [Failed ConfigurationError (ValueError (''Job type '' @ quote @ ''file'' @ quote @ '' requires '' @ quote
            @ ''file_path'' @ quote @ '' for this script.'')), Succeeded],
      job_failures = 1,
      calls = [ResponsesCreate (YStr ''tardigrade habitats'') (YStr ''gpt-4.1'') None,
               WriteText \<lparr>anchor = [], parts = [''stash'', ''20250101_120000'', ''third.json'']\<rparr>
                 \<lparr>r_query = YStr ''tardigrade habitats'',
                  r_created = ''20250101_120000'', r_model = YStr ''gpt-4.1'',
                  r_vector_store_id = None, r_output_text = ''answer'', r_output_structured = []\<rparr>,
               Sleep (1 / 4)],
      ending = Completed\<rparr>"
    unfolding third_job_alone by (simp add: logged_failure_def)
  have nt_hdr: "print_header no_type_job = None" and nt_mal: "malformed no_type_job"
    by (simp_all add: print_header_def malformed_def no_type_job_def lower_def lower_char_def)
  note nt = malformed_job_fails_alone [where jb = no_type_job and p = 5 and sl = "1 / 4"
      and w = ready_world and od = stash and n = 0 and rest = "[(third_job, ready_world)]",
      OF nt_hdr nt_mal]
  have d_ty: "no_type_job ''type'' = None"
    by (simp add: no_type_job_def)
  from nt d_ty
  have nt_pj: "process_job 5 (1 / 4) ready_world stash no_type_job = (Raises (KeyError ''type''), [])"
    by blast
  from nt have nt_step: "run_jobs 5 (1 / 4) stash 0 [(no_type_job, ready_world), (third_job, ready_world)] =
      logged_failure (classify e) e ev (run_jobs 5 (1 / 4) stash (0 + 1) [(third_job, ready_world)])"
    if "process_job 5 (1 / 4) ready_world stash no_type_job = (Raises e, ev)" "handler_raises e = None"
    for e ev
    using that by blast
  have "run_jobs 5 (1 / 4) stash 0 [(no_type_job, ready_world), (third_job, ready_world)] =
      logged_failure (classify (KeyError ''type'')) (KeyError ''type'') []
        (run_jobs 5 (1 / 4) stash (0 + 1) [(third_job, ready_world)])"
    by (rule nt_step [OF nt_pj]) simp
  then have d: "run_jobs 5 (1 / 4) stash 0 [(no_type_job, ready_world), (third_job, ready_world)] =
     \<lparr>attempts = [Failed UnexpectedError (KeyError ''type''), Succeeded],
      job_failures = 1,
      calls = [ResponsesCreate (YStr ''tardigrade habitats'') (YStr ''gpt-4.1'') None,
               WriteText \<lparr>anchor = [], parts = [''stash'', ''20250101_120000'', ''third.json'']\<rparr>
                 \<lparr>r_query = YStr ''tardigrade habitats'',
                  r_created = ''20250101_120000'', r_model = YStr ''gpt-4.1'',
                  r_vector_store_id = None, r_output_text = ''answer'', r_output_structured = []\<rparr>,
               Sleep (1 / 4)],
      ending = Completed\<rparr>"
    unfolding third_job_alone by (simp add: logged_failure_def)
  have fq_hdr: "print_header file_no_query_job = None" and fq_mal: "malformed file_no_query_job"
    by (simp_all add: print_header_def malformed_def file_no_query_job_def lower_def lower_char_def)
  note fq = malformed_job_fails_alone [where jb = file_no_query_job and p = 5 and sl = "1 / 4"
      and w = ready_world and od = stash and n = 0 and rest = "[(third_job, ready_world)]",
      OF fq_hdr fq_mal]
  have e_facts: "file_no_query_job ''type'' = Some (YStr ''file'')"
    "file_no_query_job ''query'' = None"
    "file_no_query_job ''file_path'' = Some (YStr ''docs/my_document.pdf'')"
    "expanduser ready_world ''docs/my_document.pdf'' = Inr ''docs/my_document.pdf''"
    "path_exists ready_world ''docs/my_document.pdf''"
    by (simp_all add: file_no_query_job_def ready_world_def)
  from fq e_facts lower_file ready_setup_returns
  have e: "fst (process_job 5 (1 / 4) ready_world stash file_no_query_job) = Raises (KeyError ''query'')"
    by blast
  have no_hdr: "print_header no_out_job = None" and no_mal: "malformed no_out_job"
    by (simp_all add: print_header_def malformed_def no_out_job_def lower_def lower_char_def)
  note no = malformed_job_fails_alone [where jb = no_out_job and p = 5 and sl = "1 / 4"
      and w = ready_world and od = stash and n = 0 and rest = "[(third_job, ready_world)]",
      OF no_hdr no_mal]
  have f_out: "no_out_job ''out'' = None" by (simp add: no_out_job_def)
  from no f_out no_out_job_dispatch
  have f: "fst (process_job 5 (1 / 4) ready_world stash no_out_job) = Raises (KeyError ''out'')"
    by blast
  from nq have g: "fst (process_job 5 (1 / 4) ready_world stash no_query_job) \<noteq> Returns ()"
    by blast
  from a b c d e f g show ?thesis by blast
qed

text \<open>
  C5, as stated, fails: of three jobs of which the second is a \<^verbatim>\<open>web\<close> job with no
  \<^verbatim>\<open>query\<close>, the first and the third succeed and one failure is counted, but that
  failure is recorded as an unexpected error, not as a configuration error.
\<close>

theorem missing_query_is_unexpected:
  "attempts (run_jobs 5 (1 / 4) stash 0
      [(web_job, ready_world), (no_query_job, ready_world), (third_job, ready_world)]) =
     [Succeeded, Failed UnexpectedError (KeyError ''query''), Succeeded]
   \<and> job_failures (run_jobs 5 (1 / 4) stash 0
      [(web_job, ready_world), (no_query_job, ready_world), (third_job, ready_world)]) = 1
   \<and> ending (run_jobs 5 (1 / 4) stash 0
      [(web_job, ready_world), (no_query_job, ready_world), (third_job, ready_world)]) = Completed
   \<and> UnexpectedError \<noteq> ConfigurationError"
  by (simp add: example_headers web_job_succeeds no_query_job_raises third_job_succeeds)

text \<open>
  C6, as amended. With the API key set and the job list loaded, a run in which the
  \<^verbatim>\<open>type\<close> of every job is absent or a string, no job polls for ever, and no job
  raises an \<^verbatim>\<open>openai.APIError\<close> that has no \<^verbatim>\<open>status_code\<close>, attempts every job,
  counts the jobs whose \<^verbatim>\<open>process_job\<close> raised, reports that count in its summary
  (or that all jobs completed), and ends with exit status 0 whether or not jobs failed.
\<close>

theorem exit_status_zero_after_job_loop:
  assumes "api_key_set a" and "jobs_file a = Inr jobs"
    and "\<forall>(jb, w) \<in> set jobs.
      print_header jb = None
      \<and> settles (fst (process_job (poll_interval a) (sleep_arg a) w (outdir_of a) jb))"
  shows "snd (snd (cli a)) = ExitStatus 0
         \<and> fst (snd (cli a)) =
             Some (if raised_count (poll_interval a) (sleep_arg a) (outdir_of a) jobs = 0
                   then AllCompleted
                   else Encountered (raised_count (poll_interval a) (sleep_arg a) (outdir_of a) jobs))
         \<and> fst (cli a) = Some (run_jobs (poll_interval a) (sleep_arg a) (outdir_of a) 0 jobs)
         \<and> length (attempts (run_jobs (poll_interval a) (sleep_arg a) (outdir_of a) 0 jobs)) =
             length jobs
         \<and> job_failures (run_jobs (poll_interval a) (sleep_arg a) (outdir_of a) 0 jobs) =
             raised_count (poll_interval a) (sleep_arg a) (outdir_of a) jobs"
proof -
  let ?r = "run_jobs (poll_interval a) (sleep_arg a) (outdir_of a) 0 jobs"
  note all = run_jobs_completes [OF assms(3), of 0]
  have e: "ending ?r = Completed" by (simp add: all)
  have l: "length (attempts ?r) = length jobs" by (simp add: all)
  have k: "job_failures ?r = raised_count (poll_interval a) (sleep_arg a) (outdir_of a) jobs"
    by (simp add: all raised_count_logs)
  have c: "cli a =
      (Some ?r, Some (if job_failures ?r = 0 then AllCompleted else Encountered (job_failures ?r)),
       ExitStatus 0)"
    using cli_runs [OF assms(1,2)] e by (simp add: Let_def)
  show ?thesis
    unfolding c by (simp add: k l)
qed

theorem exit_status_zero_after_job_loop_witness:
  "snd (snd (cli (example_invocation [(unknown_type_job, ready_world), (third_job, ready_world)]))) =
     ExitStatus 0
   \<and> fst (snd (cli (example_invocation [(unknown_type_job, ready_world), (third_job, ready_world)]))) =
     Some (Encountered 1)
   \<and> raised_count 5 (1 / 4) stash [(unknown_type_job, ready_world), (third_job, ready_world)] = 1"
proof -
  let ?jobs = "[(unknown_type_job, ready_world), (third_job, ready_world)]"
  have h1: "api_key_set (example_invocation ?jobs)"
    and h2: "jobs_file (example_invocation ?jobs) = Inr ?jobs"
    and p: "poll_interval (example_invocation ?jobs) = 5"
    and s: "sleep_arg (example_invocation ?jobs) = 1 / 4"
    by (simp_all add: example_invocation_def)
  have h3: "\<forall>(jb, w) \<in> set ?jobs.
      print_header jb = None
      \<and> settles (fst (process_job (poll_interval (example_invocation ?jobs))
               (sleep_arg (example_invocation ?jobs)) w (outdir_of (example_invocation ?jobs)) jb))"
    by (simp add: p s outdir_of_example example_headers unknown_type_job_raises third_job_succeeds)
  have k: "raised_count 5 (1 / 4) stash ?jobs = 1"
    by (simp add: raised_count_def unknown_type_job_raises third_job_succeeds)
  from exit_status_zero_after_job_loop [OF h1 h2 h3] k
  show ?thesis by (simp add: p s outdir_of_example)
qed

text \<open>
  C6, as stated, fails: a run of one job, which fails, ends with exit status 0.
\<close>

theorem failed_job_exits_zero:
  "cli (example_invocation [(unknown_type_job, ready_world)]) =
     (Some \<lparr>attempts = [Failed ConfigurationError (ValueError ''Unknown job type: image'')],
            job_failures = 1, calls = [], ending = Completed\<rparr>,
      Some (Encountered 1), ExitStatus 0)"
proof -
  have r: "run_jobs 5 (1 / 4) stash 0 [(unknown_type_job, ready_world)] =
     \<lparr>attempts = [Failed ConfigurationError (ValueError ''Unknown job type: image'')],
      job_failures = 1, calls = [], ending = Completed\<rparr>"
    by (simp add: example_headers unknown_type_job_raises)
  have "api_key_set (example_invocation [(unknown_type_job, ready_world)])"
    and "jobs_file (example_invocation [(unknown_type_job, ready_world)]) =
        Inr [(unknown_type_job, ready_world)]"
    and "poll_interval (example_invocation [(unknown_type_job, ready_world)]) = 5"
    and "sleep_arg (example_invocation [(unknown_type_job, ready_world)]) = 1 / 4"
    by (simp_all add: example_invocation_def)
  with cli_runs [of "example_invocation [(unknown_type_job, ready_world)]"
      "[(unknown_type_job, ready_world)]"] r
  show ?thesis by (simp add: outdir_of_example)
qed

end
